theory Spec2Isabelle
  imports Complex_Main "HOL-Library.AList" "HOL-Library.Product_Lexorder"
    "HOL-Library.Multiset" "HOL-Library.Word"
begin

section \<open>Figment pixel colour counter: the data\<close>

text \<open>
  The program is \<^verbatim>\<open>src/main.py\<close>. A Python \<^verbatim>\<open>dict\<close> keeps its keys in insertion order
  and that order decides both the tie-break of \<^verbatim>\<open>get_color_name\<close> and the order of the
  result, so a dictionary is an association list. Keys of a dictionary are unique; the
  predicate \<open>is_dict\<close> says so, and every dictionary the program builds goes through
  \<open>dict_of_items\<close>, which establishes it.
\<close>

type_synonym 'v dict = "(string \<times> 'v) list"

definition is_dict :: "'v dict \<Rightarrow> bool" where
  "is_dict d = distinct (map fst d)"

text \<open>\<^verbatim>\<open>k in d\<close>.\<close>

definition dict_contains :: "'v dict \<Rightarrow> string \<Rightarrow> bool" where
  "dict_contains d k = (k \<in> set (map fst d))"

text \<open>
  A dictionary display \<^verbatim>\<open>{k1: v1, k2: v2, ...}\<close> and a dictionary comprehension both store
  their items one after the other: a key that is already present keeps its position and
  takes the new value, a new key goes to the end. That is \<open>AList.update\<close>.
\<close>

definition dict_of_items :: "(string \<times> 'v) list \<Rightarrow> 'v dict" where
  "dict_of_items items = foldl (\<lambda>d (k, v). AList.update k v d) [] items"

text \<open>
  The exceptions. \<open>ZeroDivisionError\<close> and \<open>KeyError\<close> are the ones the statements of
  \<^verbatim>\<open>analyze_image_colors\<close> can raise; \<open>OverflowError\<close> is what NumPy 2 raises when a
  Python integer that does not fit the type meets an 8-bit scalar; \<open>TypeError\<close> is what
  an operation on an object of the wrong kind raises, and occurs only in the model with
  object references below.
  \<open>EmptyImage\<close>, \<open>EmptyPalette\<close> and
  \<open>InvalidPalette\<close> are the error kinds that the specification names; no statement of
  the program raises them, they are here so that the specification's sentences about
  them can be written down.
\<close>

datatype error =
  ZeroDivisionError | KeyError | OverflowError | TypeError
  | EmptyImage | EmptyPalette | InvalidPalette

text \<open>
  A pixel of the decoded image: three unsigned 8-bit channels (\<^verbatim>\<open>img.convert('RGB')\<close>
  followed by \<^verbatim>\<open>np.array\<close> gives an array of \<^verbatim>\<open>uint8\<close> of shape height x width x 3).
  The image is the list of its rows.
\<close>

type_synonym pixel = "8 word \<times> 8 word \<times> 8 word"

text \<open>
  \<^verbatim>\<open>tuple(color)\<close>: the three channels of a row of \<^verbatim>\<open>unique\<close>. They stay what they are in
  the array, NumPy scalars of type \<^verbatim>\<open>uint8\<close>.
\<close>

definition tuple_of :: "pixel \<Rightarrow> 8 word list" where
  "tuple_of color = (case color of (r, g, b) \<Rightarrow> [r, g, b])"

text \<open>
  The script names NumPy as a dependency and no release of it, and the arithmetic of
  line 50 on a \<^verbatim>\<open>uint8\<close> scalar and a Python integer depends on the release. The two
  behaviours are the two values of a parameter of the model.
  \<^item> \<open>NumPy1\<close>: the releases before 2.0. A \<^verbatim>\<open>uint8\<close> scalar and a Python integer are promoted
    to a 64-bit integer, so the differences, their squares and their sum are the
    integers of arithmetic (64 bits hold them for every component a colour can have).
  \<^item> \<open>NumPy2\<close>: the releases from 2.0 on. The Python integer takes the type of the scalar:
    one outside 0 to 255 raises \<^verbatim>\<open>OverflowError\<close>, and the difference, its square and the
    sum are \<^verbatim>\<open>uint8\<close> values that wrap around modulo 256.
\<close>

datatype numpy = NumPy1 | NumPy2

text \<open>
  A value of \<^verbatim>\<open>color_percentages\<close> is the string
  \<^verbatim>\<open>"{:.6f}".format(count / total_pixels)\<close>. The floating-point division and the
  rounding to six decimals are not evaluated here: the value is kept as the two operands
  of the division, and \<open>ratio\<close> is the exact quotient that the string approximates.
\<close>

datatype percentage = Format6 int int

fun ratio :: "percentage \<Rightarrow> real" where
  "ratio (Format6 cnt total_pixels) = real_of_int cnt / real_of_int total_pixels"

section \<open>\<^verbatim>\<open>get_color_name\<close>\<close>

text \<open>
  The sum of the squared differences of the channels as integers, which is what
  \<^verbatim>\<open>sum([(a - b) ** 2 for a, b in zip(rgb_triplet, target_rgb)])\<close> is when nothing wraps
  around. \<^verbatim>\<open>zip\<close> stops at the shorter of the two tuples, as \<open>zip\<close> does.
\<close>

definition exact_sq_dist :: "8 word list \<Rightarrow> int list \<Rightarrow> int" where
  "exact_sq_dist rgb_triplet target_rgb =
     sum_list (map (\<lambda>(a, b). (uint a - b) ^ 2) (zip rgb_triplet target_rgb))"

text \<open>
  Line 50 as the installed NumPy computes it; the result is the number that
  \<^verbatim>\<open>dist\<close> holds, or the exception. Under \<open>NumPy2\<close> the subtraction \<^verbatim>\<open>a - b\<close> first
  converts \<^verbatim>\<open>b\<close> to \<^verbatim>\<open>uint8\<close>, and everything after it is 8-bit arithmetic (\<^verbatim>\<open>sum\<close> starts
  from the Python integer 0, which takes the type of the first term).
\<close>

definition sq_dist :: "numpy \<Rightarrow> 8 word list \<Rightarrow> int list \<Rightarrow> error + int" where
  "sq_dist np rgb_triplet target_rgb =
     (case np of
        NumPy1 \<Rightarrow> Inr (exact_sq_dist rgb_triplet target_rgb)
      | NumPy2 \<Rightarrow>
          if list_all (\<lambda>(a, b). 0 \<le> b \<and> b \<le> 255) (zip rgb_triplet target_rgb)
          then Inr (uint (sum_list (map (\<lambda>(a, b). (a - word_of_int b) ^ 2)
                                        (zip rgb_triplet target_rgb))))
          else Inl OverflowError)"

text \<open>
  \<^verbatim>\<open>min_distance\<close> starts as \<^verbatim>\<open>float('inf')\<close>, written \<open>None\<close>; every integer is below it.
\<close>

fun below :: "int \<Rightarrow> int option \<Rightarrow> bool" where
  "below dst None = True"
| "below dst (Some min_distance) = (dst < min_distance)"

text \<open>
  The loop of \<^verbatim>\<open>get_color_name\<close> over \<^verbatim>\<open>target_colors.items()\<close>, on its two variables.
  The local \<^verbatim>\<open>dist\<close> is written \<open>dst\<close> (\<open>dist\<close> is the metric of the analysis library).
\<close>

fun closest_loop ::
  "numpy \<Rightarrow> 8 word list \<Rightarrow> int list dict \<Rightarrow> int option \<times> string option \<Rightarrow>
   error + (int option \<times> string option)"
where
  "closest_loop np rgb_triplet [] (min_distance, closest_color) =
     Inr (min_distance, closest_color)"
| "closest_loop np rgb_triplet ((color_name, target_rgb) # items) (min_distance, closest_color) =
     (case sq_dist np rgb_triplet target_rgb of
        Inl e \<Rightarrow> Inl e
      | Inr dst \<Rightarrow>
          if below dst min_distance
          then closest_loop np rgb_triplet items (Some dst, Some color_name)
          else closest_loop np rgb_triplet items (min_distance, closest_color))"

definition get_color_name :: "numpy \<Rightarrow> 8 word list \<Rightarrow> int list dict \<Rightarrow> error + string option" where
  "get_color_name np rgb_triplet target_colors =
     (case closest_loop np rgb_triplet target_colors (None, None) of
        Inl e \<Rightarrow> Inl e
      | Inr (min_distance, closest_color) \<Rightarrow> Inr closest_color)"

section \<open>\<^verbatim>\<open>analyze_image_colors\<close>\<close>

text \<open>
  \<^verbatim>\<open>np.unique(rows, axis=0, return_counts=True)\<close>: the distinct rows in ascending
  (lexicographic, unsigned) order, and for each of them the number of times it occurs.
\<close>

definition np_unique :: "pixel list \<Rightarrow> pixel list \<times> int list" where
  "np_unique rows =
     (let unique = sort (remdups rows)
      in (unique, map (\<lambda>color. int (count_list rows color)) unique))"

text \<open>
  \<^verbatim>\<open>color_counts[color_name] += count\<close>: reads the entry, which raises \<^verbatim>\<open>KeyError\<close> when
  the key is absent, and stores the sum under the same key.
\<close>

definition add_count :: "int dict \<Rightarrow> string \<Rightarrow> int \<Rightarrow> error + int dict" where
  "add_count color_counts color_name cnt =
     (case map_of color_counts color_name of
        None \<Rightarrow> Inl KeyError
      | Some n \<Rightarrow> Inr (AList.update color_name (n + cnt) color_counts))"

text \<open>
  The loop \<^verbatim>\<open>for color, count in zip(unique, counts)\<close> on the two variables it changes,
  \<^verbatim>\<open>color_counts\<close> and \<^verbatim>\<open>total_pixels\<close>. \<^verbatim>\<open>color_name in target_colors\<close> is false when
  \<^verbatim>\<open>get_color_name\<close> returned \<^verbatim>\<open>None\<close>.
\<close>

fun count_loop ::
  "numpy \<Rightarrow> int list dict \<Rightarrow> (8 word list \<times> int) list \<Rightarrow> int dict \<times> int \<Rightarrow>
   error + (int dict \<times> int)"
where
  "count_loop np target_colors [] (color_counts, total_pixels) =
     Inr (color_counts, total_pixels)"
| "count_loop np target_colors ((color, cnt) # rest) (color_counts, total_pixels) =
     (case get_color_name np color target_colors of
        Inl e \<Rightarrow> Inl e
      | Inr None \<Rightarrow> count_loop np target_colors rest (color_counts, total_pixels + cnt)
      | Inr (Some color_name) \<Rightarrow>
          if dict_contains target_colors color_name
          then (case add_count color_counts color_name cnt of
                  Inl e \<Rightarrow> Inl e
                | Inr color_counts' \<Rightarrow>
                    count_loop np target_colors rest (color_counts', total_pixels + cnt))
          else count_loop np target_colors rest (color_counts, total_pixels + cnt))"

text \<open>
  The items of the comprehension that builds \<^verbatim>\<open>color_percentages\<close>, in the order of
  \<^verbatim>\<open>color_counts.items()\<close>. The first division by a \<^verbatim>\<open>total_pixels\<close> of zero raises
  \<^verbatim>\<open>ZeroDivisionError\<close> (both operands are Python integers then, since the loop above
  has not run); with no item there is no division.
\<close>

fun percent_items :: "int dict \<Rightarrow> int \<Rightarrow> error + (string \<times> percentage) list" where
  "percent_items [] total_pixels = Inr []"
| "percent_items ((color, cnt) # rest) total_pixels =
     (if total_pixels = 0 then Inl ZeroDivisionError
      else case percent_items rest total_pixels of
             Inl e \<Rightarrow> Inl e
           | Inr items \<Rightarrow> Inr ((color @ ''_percent'', Format6 cnt total_pixels) # items))"

text \<open>
  The loop variable \<^verbatim>\<open>count\<close> is written \<open>cnt\<close> throughout (\<open>count\<close> is a constant of
  the multiset library).

  Lines 78 to 92 of \<^verbatim>\<open>analyze_image_colors\<close>, everything after the histogram has been
  computed, as a function of the palette and of the list \<^verbatim>\<open>zip(unique, counts)\<close>.
\<close>

definition analyze_histogram ::
  "numpy \<Rightarrow> int list dict \<Rightarrow> (8 word list \<times> int) list \<Rightarrow>
   error + (int dict \<times> percentage dict)"
where
  "analyze_histogram np target_colors histogram =
     (let color_counts = dict_of_items (map (\<lambda>(color, rgb). (color, 0)) target_colors)
      in case count_loop np target_colors histogram (color_counts, 0) of
           Inl e \<Rightarrow> Inl e
         | Inr (color_counts, total_pixels) \<Rightarrow>
             (case percent_items color_counts total_pixels of
                Inl e \<Rightarrow> Inl e
              | Inr items \<Rightarrow> Inr (color_counts, dict_of_items items)))"

text \<open>
  \<^verbatim>\<open>analyze_image_colors\<close> from the decoded array \<^verbatim>\<open>data\<close> on (opening and decoding the
  file is the image library's work). \<^verbatim>\<open>data.reshape(-1, data.shape[-1])\<close> is the list of
  all pixels, row after row.
\<close>

definition analyze_image_colors ::
  "numpy \<Rightarrow> pixel list list \<Rightarrow> int list dict \<Rightarrow> error + (int dict \<times> percentage dict)"
where
  "analyze_image_colors np data target_colors =
     (let (unique, counts) = np_unique (concat data);
          unique = map tuple_of unique
      in analyze_histogram np target_colors (zip unique counts))"

text \<open>A grid is rectangular when all its rows have the same width.\<close>

definition rectangular :: "nat \<Rightarrow> 'a list list \<Rightarrow> bool" where
  "rectangular width data = list_all (\<lambda>row. length row = width) data"

text \<open>
  Building a palette. Lines 132 to 138 build the module's palette with a dictionary
  display, and the script's instructions tell the user to write another display there.
  Evaluating a display whose keys are strings raises nothing, whatever the names and the
  components are; no statement of the program inspects either.
\<close>

definition make_target_colors :: "(string \<times> int list) list \<Rightarrow> error + int list dict" where
  "make_target_colors pairs = Inr (dict_of_items pairs)"

section \<open>\<^verbatim>\<open>analyze_image_colors\<close> on object references\<close>

text \<open>
  Python passes \<^verbatim>\<open>target_colors\<close> by reference, and \<^verbatim>\<open>color_counts[color_name] += count\<close>
  updates a dictionary in place. To say which objects a call changes, the objects live in
  a store: a list of objects, a reference being an index into it. A new object goes to
  the end of the list.
\<close>

datatype obj =
  Grid "pixel list list" | Colors "int list dict" | Counts "int dict"
  | Percentages "percentage dict"

type_synonym heap = "obj list"

definition deref :: "heap \<Rightarrow> nat \<Rightarrow> obj option" where
  "deref h r = (if r < length h then Some (h ! r) else None)"

definition alloc :: "obj \<Rightarrow> heap \<Rightarrow> nat \<times> heap" where
  "alloc ob h = (length h, h @ [ob])"

text \<open>
  The loop of lines 83 to 87: \<open>tc_ref\<close> refers to \<^verbatim>\<open>target_colors\<close>, \<open>cc_ref\<close> to
  \<^verbatim>\<open>color_counts\<close>; the only store is the one into \<^verbatim>\<open>color_counts\<close>. The result is the value
  of \<^verbatim>\<open>total_pixels\<close>, or the exception, and the store at that moment.
\<close>

fun count_loop_heap ::
  "numpy \<Rightarrow> nat \<Rightarrow> nat \<Rightarrow> (8 word list \<times> int) list \<Rightarrow> int \<Rightarrow> heap \<Rightarrow>
   (error + int) \<times> heap"
where
  "count_loop_heap np tc_ref cc_ref [] total_pixels h = (Inr total_pixels, h)"
| "count_loop_heap np tc_ref cc_ref ((color, cnt) # rest) total_pixels h =
     (case (deref h tc_ref, deref h cc_ref) of
        (Some (Colors target_colors), Some (Counts color_counts)) \<Rightarrow>
          (case get_color_name np color target_colors of
             Inl e \<Rightarrow> (Inl e, h)
           | Inr None \<Rightarrow> count_loop_heap np tc_ref cc_ref rest (total_pixels + cnt) h
           | Inr (Some color_name) \<Rightarrow>
               if dict_contains target_colors color_name
               then (case add_count color_counts color_name cnt of
                       Inl e \<Rightarrow> (Inl e, h)
                     | Inr color_counts' \<Rightarrow>
                         count_loop_heap np tc_ref cc_ref rest (total_pixels + cnt)
                           (h[cc_ref := Counts color_counts']))
               else count_loop_heap np tc_ref cc_ref rest (total_pixels + cnt) h)
      | _ \<Rightarrow> (Inl TypeError, h))"

text \<open>
  The body of \<^verbatim>\<open>analyze_image_colors\<close> from the array \<^verbatim>\<open>data\<close> on. \<^verbatim>\<open>np.unique\<close> and the
  list comprehension of line 76 build new values from \<^verbatim>\<open>data\<close> and store nothing into
  it; the two comprehensions of lines 79 and 90 each make a new dictionary. The call
  returns the references of the two new dictionaries.
\<close>

definition analyze_image_colors_heap ::
  "numpy \<Rightarrow> nat \<Rightarrow> nat \<Rightarrow> heap \<Rightarrow> (error + nat \<times> nat) \<times> heap"
where
  "analyze_image_colors_heap np data_ref tc_ref h =
     (case (deref h data_ref, deref h tc_ref) of
        (Some (Grid data), Some (Colors target_colors)) \<Rightarrow>
          (let (unique, counts) = np_unique (concat data);
               unique = map tuple_of unique;
               (cc_ref, h1) =
                 alloc (Counts (dict_of_items (map (\<lambda>(color, rgb). (color, 0)) target_colors))) h
           in case count_loop_heap np tc_ref cc_ref (zip unique counts) 0 h1 of
                (Inl e, h2) \<Rightarrow> (Inl e, h2)
              | (Inr total_pixels, h2) \<Rightarrow>
                  (case deref h2 cc_ref of
                     Some (Counts color_counts) \<Rightarrow>
                       (case percent_items color_counts total_pixels of
                          Inl e \<Rightarrow> (Inl e, h2)
                        | Inr items \<Rightarrow>
                            (let (pc_ref, h3) = alloc (Percentages (dict_of_items items)) h2
                             in (Inr (cc_ref, pc_ref), h3)))
                   | _ \<Rightarrow> (Inl TypeError, h2)))
      | _ \<Rightarrow> (Inl TypeError, h))"

section \<open>The module's configuration\<close>

text \<open>
  The module's palette, a dictionary display. \<^verbatim>\<open>webcolors.hex_to_rgb\<close> reads the three
  bytes of the hexadecimal notation: \<^verbatim>\<open>#ff69b4\<close>, \<^verbatim>\<open>#008b8b\<close>, \<^verbatim>\<open>#d3d3d3\<close>, \<^verbatim>\<open>#005DBA\<close>,
  \<^verbatim>\<open>#ffffff\<close>.
\<close>

definition target_colors :: "int list dict" where
  "target_colors = dict_of_items
     [(''hotpink'', [255, 105, 180]),
      (''darkcyan'', [0, 139, 139]),
      (''lightgray'', [211, 211, 211]),
      (''blue'', [0, 93, 186]),
      (''white'', [255, 255, 255])]"

section \<open>Auxiliary notions for the statements\<close>

text \<open>
  The pixels that a histogram attributes to the palette name \<open>k\<close>: the sum of the
  occurrence counts of the colours for which \<^verbatim>\<open>get_color_name\<close> returns \<open>k\<close>.
\<close>

definition assigned ::
  "numpy \<Rightarrow> int list dict \<Rightarrow> (8 word list \<times> int) list \<Rightarrow> string \<Rightarrow> int"
where
  "assigned np tc hist k =
     sum_list (map snd (filter (\<lambda>(c, cnt). get_color_name np c tc = Inr (Some k)) hist))"

text \<open>The histogram that \<^verbatim>\<open>analyze_image_colors\<close> hands to its loop.\<close>

definition histogram :: "pixel list list \<Rightarrow> (8 word list \<times> int) list" where
  "histogram data =
     (let (unique, counts) = np_unique (concat data) in zip (map tuple_of unique) counts)"

text \<open>
  The palettes on which the arithmetic of line 50 raises nothing. Under \<open>NumPy1\<close> that is
  every palette; under \<open>NumPy2\<close> it is the palettes whose components are 8-bit values,
  which is what the specification takes a palette entry to be.
\<close>

fun palette_fits :: "numpy \<Rightarrow> int list dict \<Rightarrow> bool" where
  "palette_fits NumPy1 tc = True"
| "palette_fits NumPy2 tc = list_all (\<lambda>(name, rgb). list_all (\<lambda>b. 0 \<le> b \<and> b \<le> 255) rgb) tc"

section \<open>The nearest palette entry\<close>

lemma sq_dist_error: "sq_dist np c r = Inl e \<Longrightarrow> e = OverflowError"
  by (cases np) (auto simp: sq_dist_def split: if_splits)

lemma sq_dist_fits:
  assumes "palette_fits np tc" and "(k, r) \<in> set tc"
  shows "\<exists>d. sq_dist np c r = Inr d"
proof (cases np)
  case NumPy1
  then show ?thesis by (simp add: sq_dist_def)
next
  case NumPy2
  with assms have "\<forall>b\<in>set r. 0 \<le> b \<and> b \<le> 255"
    by (auto simp: list_all_iff)
  then have "list_all (\<lambda>(a, b). 0 \<le> b \<and> b \<le> 255) (zip c r)"
    by (auto simp: list_all_iff dest: set_zip_rightD)
  with NumPy2 show ?thesis by (simp add: sq_dist_def)
qed



lemma sq_dist_exact: "sq_dist NumPy1 c r = Inr (exact_sq_dist c r)"
  by (simp add: sq_dist_def)


lemma closest_loop_defined:
  "closest_loop np c items st = Inr res \<Longrightarrow> \<forall>e\<in>set items. \<exists>x. sq_dist np c (snd e) = Inr x"
proof (induction items arbitrary: st)
  case Nil
  then show ?case by simp
next
  case (Cons x items)
  obtain k r where x: "x = (k, r)" by (cases x)
  obtain md cl where st: "st = (md, cl)" by (cases st)
  from Cons.prems obtain d where d: "sq_dist np c r = Inr d"
    by (cases "sq_dist np c r") (auto simp: x st)
  with Cons.prems have "\<exists>st'. closest_loop np c items st' = Inr res"
    by (auto simp: x st split: if_splits)
  with Cons.IH d x show ?case by auto
qed

lemma closest_loop_total:
  "\<forall>e\<in>set items. \<exists>x. sq_dist np c (snd e) = Inr x \<Longrightarrow> \<exists>res. closest_loop np c items st = Inr res"
proof (induction items arbitrary: st)
  case Nil
  then show ?case by (cases st) simp
next
  case (Cons x items)
  obtain k r where x: "x = (k, r)" by (cases x)
  obtain md cl where st: "st = (md, cl)" by (cases st)
  from Cons.prems x obtain d where d: "sq_dist np c r = Inr d" by auto
  from Cons.prems have "\<forall>e\<in>set items. \<exists>x. sq_dist np c (snd e) = Inr x" by simp
  from Cons.IH[OF this] d show ?case by (simp add: x st)
qed

lemma closest_loop_error: "closest_loop np c items st = Inl e \<Longrightarrow> e = OverflowError"
proof (induction items arbitrary: st)
  case Nil
  then show ?case by (cases st) simp
next
  case (Cons x items)
  obtain k r where x: "x = (k, r)" by (cases x)
  obtain md cl where st: "st = (md, cl)" by (cases st)
  show ?case
  proof (cases "sq_dist np c r")
    case (Inl e')
    with Cons.prems sq_dist_error[OF Inl] show ?thesis by (simp add: x st)
  next
    case (Inr d)
    with Cons.prems have "\<exists>st'. closest_loop np c items st' = Inl e"
      by (auto simp: x st split: if_splits)
    with Cons.IH show ?thesis by blast
  qed
qed

lemma closest_loop_split:
  "closest_loop np c items (Some d, Some n) = Inr (md, cl) \<Longrightarrow>
     (md = Some d \<and> cl = Some n \<and>
        (\<forall>e\<in>set items. \<forall>x. sq_dist np c (snd e) = Inr x \<longrightarrow> d \<le> x)) \<or>
     (\<exists>pre name rgb post d'. items = pre @ (name, rgb) # post \<and> cl = Some name \<and>
        md = Some d' \<and> sq_dist np c rgb = Inr d' \<and> d' < d \<and>
        (\<forall>e\<in>set pre. \<forall>x. sq_dist np c (snd e) = Inr x \<longrightarrow> d' < x) \<and>
        (\<forall>e\<in>set post. \<forall>x. sq_dist np c (snd e) = Inr x \<longrightarrow> d' \<le> x))"
proof (induction items arbitrary: d n)
  case Nil
  then show ?case by simp
next
  case (Cons x items)
  obtain k r where x: "x = (k, r)" by (cases x)
  from Cons.prems obtain dr where dr: "sq_dist np c r = Inr dr"
    by (cases "sq_dist np c r") (auto simp: x)
  show ?case
  proof (cases "dr < d")
    case True
    with Cons.prems x dr have "closest_loop np c items (Some dr, Some k) = Inr (md, cl)"
      by simp
    from Cons.IH[OF this] show ?thesis
    proof
      assume a: "md = Some dr \<and> cl = Some k \<and>
        (\<forall>e\<in>set items. \<forall>x. sq_dist np c (snd e) = Inr x \<longrightarrow> dr \<le> x)"
      have "x # items = [] @ (k, r) # items" using x by simp
      moreover have "\<forall>e\<in>set ([]::(string \<times> int list) list).
                       \<forall>x. sq_dist np c (snd e) = Inr x \<longrightarrow> dr < x" by simp
      ultimately show ?thesis using a True dr by blast
    next
      assume "\<exists>pre name rgb post d'. items = pre @ (name, rgb) # post \<and> cl = Some name \<and>
        md = Some d' \<and> sq_dist np c rgb = Inr d' \<and> d' < dr \<and>
        (\<forall>e\<in>set pre. \<forall>x. sq_dist np c (snd e) = Inr x \<longrightarrow> d' < x) \<and>
        (\<forall>e\<in>set post. \<forall>x. sq_dist np c (snd e) = Inr x \<longrightarrow> d' \<le> x)"
      then obtain pre name rgb post d' where b: "items = pre @ (name, rgb) # post"
        "cl = Some name" "md = Some d'" "sq_dist np c rgb = Inr d'" "d' < dr"
        "\<forall>e\<in>set pre. \<forall>x. sq_dist np c (snd e) = Inr x \<longrightarrow> d' < x"
        "\<forall>e\<in>set post. \<forall>x. sq_dist np c (snd e) = Inr x \<longrightarrow> d' \<le> x" by blast
      have "x # items = (x # pre) @ (name, rgb) # post" using b by simp
      moreover have "\<forall>e\<in>set (x # pre). \<forall>y. sq_dist np c (snd e) = Inr y \<longrightarrow> d' < y"
        using b x dr by auto
      moreover have "d' < d" using b True by simp
      ultimately show ?thesis using b by blast
    qed
  next
    case False
    with Cons.prems x dr have "closest_loop np c items (Some d, Some n) = Inr (md, cl)"
      by simp
    from Cons.IH[OF this] show ?thesis
    proof
      assume a: "md = Some d \<and> cl = Some n \<and>
        (\<forall>e\<in>set items. \<forall>x. sq_dist np c (snd e) = Inr x \<longrightarrow> d \<le> x)"
      with False x dr show ?thesis by auto
    next
      assume "\<exists>pre name rgb post d'. items = pre @ (name, rgb) # post \<and> cl = Some name \<and>
        md = Some d' \<and> sq_dist np c rgb = Inr d' \<and> d' < d \<and>
        (\<forall>e\<in>set pre. \<forall>x. sq_dist np c (snd e) = Inr x \<longrightarrow> d' < x) \<and>
        (\<forall>e\<in>set post. \<forall>x. sq_dist np c (snd e) = Inr x \<longrightarrow> d' \<le> x)"
      then obtain pre name rgb post d' where b: "items = pre @ (name, rgb) # post"
        "cl = Some name" "md = Some d'" "sq_dist np c rgb = Inr d'" "d' < d"
        "\<forall>e\<in>set pre. \<forall>x. sq_dist np c (snd e) = Inr x \<longrightarrow> d' < x"
        "\<forall>e\<in>set post. \<forall>x. sq_dist np c (snd e) = Inr x \<longrightarrow> d' \<le> x" by blast
      have "x # items = (x # pre) @ (name, rgb) # post" using b by simp
      moreover have "\<forall>e\<in>set (x # pre). \<forall>y. sq_dist np c (snd e) = Inr y \<longrightarrow> d' < y"
        using b x dr False by auto
      ultimately show ?thesis using b by blast
    qed
  qed
qed

lemma get_color_name_empty: "get_color_name np c [] = Inr None"
  by (simp add: get_color_name_def)

lemma get_color_name_error: "get_color_name np c tc = Inl e \<Longrightarrow> e = OverflowError"
  by (auto simp: get_color_name_def split: sum.splits dest: closest_loop_error)

lemma get_color_name_total:
  assumes "palette_fits np tc"
  shows "\<exists>cl. get_color_name np c tc = Inr cl"
proof -
  have "\<forall>e\<in>set tc. \<exists>x. sq_dist np c (snd e) = Inr x"
    using sq_dist_fits[OF assms] by auto
  from closest_loop_total[OF this, of "(None, None)"]
  show ?thesis by (auto simp: get_color_name_def)
qed

lemma get_color_name_split:
  assumes "tc \<noteq> []" and "get_color_name np c tc = Inr cl"
  shows "\<exists>pre name rgb post d. tc = pre @ (name, rgb) # post \<and> cl = Some name \<and>
        sq_dist np c rgb = Inr d \<and>
        (\<forall>e\<in>set pre. \<exists>x. sq_dist np c (snd e) = Inr x \<and> d < x) \<and>
        (\<forall>e\<in>set post. \<exists>x. sq_dist np c (snd e) = Inr x \<and> d \<le> x)"
proof -
  obtain k r items where tc: "tc = (k, r) # items" using assms(1) by (cases tc) auto
  from assms(2) obtain md where run: "closest_loop np c tc (None, None) = Inr (md, cl)"
    by (auto simp: get_color_name_def split: sum.splits)
  from closest_loop_defined[OF run]
  have def: "\<forall>e\<in>set tc. \<exists>x. sq_dist np c (snd e) = Inr x" .
  then obtain dr where dr: "sq_dist np c r = Inr dr" using tc by auto
  with run tc have res: "closest_loop np c items (Some dr, Some k) = Inr (md, cl)" by simp
  have weak: "\<exists>pre name rgb post d. tc = pre @ (name, rgb) # post \<and> cl = Some name \<and>
        sq_dist np c rgb = Inr d \<and>
        (\<forall>e\<in>set pre. \<forall>x. sq_dist np c (snd e) = Inr x \<longrightarrow> d < x) \<and>
        (\<forall>e\<in>set post. \<forall>x. sq_dist np c (snd e) = Inr x \<longrightarrow> d \<le> x)"
    using closest_loop_split[OF res]
  proof
    assume a: "md = Some dr \<and> cl = Some k \<and>
      (\<forall>e\<in>set items. \<forall>x. sq_dist np c (snd e) = Inr x \<longrightarrow> dr \<le> x)"
    have "tc = [] @ (k, r) # items" using tc by simp
    moreover have "\<forall>e\<in>set ([]::(string \<times> int list) list).
                     \<forall>x. sq_dist np c (snd e) = Inr x \<longrightarrow> dr < x" by simp
    ultimately show ?thesis using a dr by blast
  next
    assume "\<exists>pre name rgb post d'. items = pre @ (name, rgb) # post \<and> cl = Some name \<and>
        md = Some d' \<and> sq_dist np c rgb = Inr d' \<and> d' < dr \<and>
        (\<forall>e\<in>set pre. \<forall>x. sq_dist np c (snd e) = Inr x \<longrightarrow> d' < x) \<and>
        (\<forall>e\<in>set post. \<forall>x. sq_dist np c (snd e) = Inr x \<longrightarrow> d' \<le> x)"
    then obtain pre name rgb post d' where b: "items = pre @ (name, rgb) # post"
        "cl = Some name" "md = Some d'" "sq_dist np c rgb = Inr d'" "d' < dr"
        "\<forall>e\<in>set pre. \<forall>x. sq_dist np c (snd e) = Inr x \<longrightarrow> d' < x"
        "\<forall>e\<in>set post. \<forall>x. sq_dist np c (snd e) = Inr x \<longrightarrow> d' \<le> x" by blast
    have "tc = ((k, r) # pre) @ (name, rgb) # post" using b tc by simp
    moreover have "\<forall>e\<in>set ((k, r) # pre). \<forall>x. sq_dist np c (snd e) = Inr x \<longrightarrow> d' < x"
      using b dr by auto
    ultimately show ?thesis using b by blast
  qed
  then obtain pre name rgb post d where w: "tc = pre @ (name, rgb) # post" "cl = Some name"
      "sq_dist np c rgb = Inr d"
      "\<forall>e\<in>set pre. \<forall>x. sq_dist np c (snd e) = Inr x \<longrightarrow> d < x"
      "\<forall>e\<in>set post. \<forall>x. sq_dist np c (snd e) = Inr x \<longrightarrow> d \<le> x" by blast
  have "\<forall>e\<in>set pre. \<exists>x. sq_dist np c (snd e) = Inr x \<and> d < x"
  proof
    fix e assume e: "e \<in> set pre"
    then have "e \<in> set tc" using w(1) by simp
    with def obtain x where "sq_dist np c (snd e) = Inr x" by blast
    with w(4) e show "\<exists>x. sq_dist np c (snd e) = Inr x \<and> d < x" by blast
  qed
  moreover have "\<forall>e\<in>set post. \<exists>x. sq_dist np c (snd e) = Inr x \<and> d \<le> x"
  proof
    fix e assume e: "e \<in> set post"
    then have "e \<in> set tc" using w(1) by simp
    with def obtain x where "sq_dist np c (snd e) = Inr x" by blast
    with w(5) e show "\<exists>x. sq_dist np c (snd e) = Inr x \<and> d \<le> x" by blast
  qed
  ultimately show ?thesis using w(1,2,3) by blast
qed

lemma get_color_name_contains:
  assumes "get_color_name np c tc = Inr (Some n)"
  shows "dict_contains tc n"
proof (cases "tc = []")
  case True
  with assms show ?thesis by (simp add: get_color_name_empty)
next
  case False
  from get_color_name_split[OF False assms] show ?thesis
    by (auto simp: dict_contains_def)
qed




subsection \<open>Dictionaries\<close>

lemma update_fresh: "k \<notin> fst ` set al \<Longrightarrow> AList.update k v al = al @ [(k, v)]"
  by (induction al) auto

lemma foldl_update_distinct:
  "distinct (map fst (acc @ items)) \<Longrightarrow>
   foldl (\<lambda>d (k, v). AList.update k v d) acc items = acc @ items"
proof (induction items arbitrary: acc)
  case Nil
  then show ?case by simp
next
  case (Cons x items)
  obtain k v where x: "x = (k, v)" by (cases x)
  from Cons.prems x have fresh: "k \<notin> fst ` set acc" by auto
  from Cons.prems x have "distinct (map fst ((acc @ [(k, v)]) @ items))" by simp
  from Cons.IH[OF this] show ?case by (simp add: x update_fresh[OF fresh])
qed

lemma dict_of_items_distinct: "distinct (map fst items) \<Longrightarrow> dict_of_items items = items"
  using foldl_update_distinct[of "[]" items] by (simp add: dict_of_items_def)

lemma foldl_update_is_dict:
  "distinct (map fst acc) \<Longrightarrow> distinct (map fst (foldl (\<lambda>d (k, v). AList.update k v d) acc items))"
proof (induction items arbitrary: acc)
  case Nil
  then show ?case by simp
next
  case (Cons x items)
  then show ?case by (cases x) (simp add: distinct_update)
qed

lemma is_dict_dict_of_items: "is_dict (dict_of_items items)"
  using foldl_update_is_dict[of "[]" items] by (simp add: is_dict_def dict_of_items_def)

lemma foldl_update_map_of:
  "map_of (foldl (\<lambda>d (k, v). AList.update k v d) acc items) = map_of (rev items @ acc)"
proof (induction items arbitrary: acc)
  case Nil
  then show ?case by simp
next
  case (Cons x items)
  obtain k v where x: "x = (k, v)" by (cases x)
  show ?case by (simp add: x Cons.IH update_conv' map_add_upd_left fun_eq_iff map_add_def split: option.splits)
qed

lemma map_of_dict_of_items: "map_of (dict_of_items items) = map_of (rev items)"
  using foldl_update_map_of[of "[]" items] by (simp add: dict_of_items_def)

lemma update_add:
  "distinct (map fst al) \<Longrightarrow> map_of al k = Some v \<Longrightarrow>
   AList.update k (v + cnt) al = map (\<lambda>(k', v'). (k', v' + (if k' = k then cnt else (0::int)))) al"
proof (induction al)
  case Nil
  then show ?case by simp
next
  case (Cons x al)
  obtain k' v' where x: "x = (k', v')" by (cases x)
  show ?case
  proof (cases "k' = k")
    case True
    with Cons.prems x have v: "v' = v" by simp
    from Cons.prems x True have "k \<notin> fst ` set al" by auto
    then have "map (\<lambda>(k', v'). (k', v' + (if k' = k then cnt else 0))) al = al"
      by (induction al) auto
    with True v x show ?thesis by simp
  next
    case False
    with Cons x show ?thesis by simp
  qed
qed

subsection \<open>The counting loop\<close>

lemma assigned_Nil: "assigned np tc [] k = 0"
  by (simp add: assigned_def)

lemma assigned_Cons:
  "assigned np tc ((c, cnt) # hist) k =
     (if get_color_name np c tc = Inr (Some k) then cnt else 0) + assigned np tc hist k"
  by (simp add: assigned_def)

text \<open>
  The loop in closed form: it raises \<^verbatim>\<open>OverflowError\<close> when \<^verbatim>\<open>get_color_name\<close> raises on one of
  the colours, and otherwise adds to each name the pixels attributed to it.
\<close>

lemma count_loop_closed:
  "is_dict cc \<Longrightarrow> set (map fst tc) \<subseteq> set (map fst cc) \<Longrightarrow>
   count_loop np tc hist (cc, t) =
     (if \<forall>x\<in>set hist. \<exists>cl. get_color_name np (fst x) tc = Inr cl
      then Inr (map (\<lambda>(k, v). (k, v + assigned np tc hist k)) cc, t + sum_list (map snd hist))
      else Inl OverflowError)"
proof (induction hist arbitrary: cc t)
  case Nil
  then show ?case by (simp add: assigned_Nil)
next
  case (Cons x hist)
  obtain c cnt where x: "x = (c, cnt)" by (cases x)
  show ?case
  proof (cases "get_color_name np c tc")
    case (Inl e)
    then have "e = OverflowError" by (rule get_color_name_error)
    with Inl show ?thesis by (auto simp: x)
  next
    case (Inr cl)
    then have cond: "(\<forall>y\<in>set (x # hist). \<exists>cl. get_color_name np (fst y) tc = Inr cl) =
                     (\<forall>y\<in>set hist. \<exists>cl. get_color_name np (fst y) tc = Inr cl)"
      by (simp add: x)
    show ?thesis
    proof (cases cl)
      case None
      with Inr have "\<And>k. assigned np tc (x # hist) k = assigned np tc hist k"
        by (simp add: x assigned_Cons)
      with None Inr Cons.IH[OF Cons.prems, of "t + cnt"] show ?thesis
        by (simp only: cond) (simp add: x add.assoc)
    next
      case (Some n)
      with Inr have g: "get_color_name np c tc = Inr (Some n)" by simp
      then have inn: "dict_contains tc n" by (rule get_color_name_contains)
      with Cons.prems have "n \<in> set (map fst cc)" by (auto simp: dict_contains_def)
      then obtain v where v: "map_of cc n = Some v"
        by (metis map_of_eq_None_iff not_None_eq set_map)
      let ?cc = "map (\<lambda>(k', v'). (k', v' + (if k' = n then cnt else 0))) cc"
      have upd: "add_count cc n cnt = Inr ?cc"
        using Cons.prems(1) v by (simp add: add_count_def is_dict_def update_add)
      have keys: "map fst ?cc = map fst cc" by (induction cc) auto
      have "is_dict ?cc" "set (map fst tc) \<subseteq> set (map fst ?cc)"
        using Cons.prems keys by (simp_all only: is_dict_def)
      note ih = Cons.IH[OF this, of "t + cnt"]
      have m: "map (\<lambda>(k, v). (k, v + assigned np tc hist k)) ?cc =
          map (\<lambda>(k, v). (k, v + assigned np tc (x # hist) k)) cc"
        using g by (induction cc) (auto simp: x assigned_Cons)
      have step: "count_loop np tc (x # hist) (cc, t) = count_loop np tc hist (?cc, t + cnt)"
        using g inn upd by (simp add: x)
      show ?thesis
        by (simp only: step ih cond m) (simp add: x add.assoc)
    qed
  qed
qed

lemma percent_items_nonzero:
  "tot \<noteq> 0 \<Longrightarrow>
   percent_items cc tot = Inr (map (\<lambda>(k, v). (k @ ''_percent'', Format6 v tot)) cc)"
  by (induction cc) auto

lemma percent_items_zero: "cc \<noteq> [] \<Longrightarrow> percent_items cc 0 = Inl ZeroDivisionError"
  by (cases cc) auto

lemma percent_keys_distinct:
  assumes that: "distinct (map fst cc)"
  shows "distinct (map fst (map (\<lambda>(k, v). (k @ ''_percent'', f k v)) cc))"
proof -
  have "map fst (map (\<lambda>(k, v). (k @ ''_percent'', f k v)) cc) = map (\<lambda>k. k @ ''_percent'') (map fst cc)"
    by (induction cc) auto
  moreover have "inj_on (\<lambda>k::string. k @ ''_percent'') (set (map fst cc))" by (simp add: inj_on_def)
  ultimately show ?thesis using that by (simp only: distinct_map)
qed

lemma count_loop_empty_palette:
  "count_loop np [] hist (cc, t) = Inr (cc, t + sum_list (map snd hist))"
proof (induction hist arbitrary: t)
  case Nil
  then show ?case by simp
next
  case (Cons x hist)
  then show ?case by (cases x) (simp add: get_color_name_empty add.assoc)
qed

lemma foldl_update_nonempty:
  "acc \<noteq> [] \<or> items \<noteq> [] \<Longrightarrow> foldl (\<lambda>d (k, v). AList.update k v d) acc items \<noteq> []"
proof (induction items arbitrary: acc)
  case Nil
  then show ?case by simp
next
  case (Cons x items)
  then show ?case by (cases x) simp
qed

lemma dict_of_items_nonempty: "items \<noteq> [] \<Longrightarrow> dict_of_items items \<noteq> []"
  using foldl_update_nonempty[of "[]" items] by (simp add: dict_of_items_def)

subsection \<open>\<open>analyze_histogram\<close> in closed form\<close>

lemma colours_defined:
  "palette_fits np tc \<Longrightarrow> \<forall>x\<in>set hist. \<exists>cl. get_color_name np (fst x) tc = Inr cl"
  using get_color_name_total by blast

lemma initial_counts:
  "is_dict tc \<Longrightarrow>
   dict_of_items (map (\<lambda>(color, rgb). (color, 0::int)) tc) = map (\<lambda>(color, rgb). (color, 0)) tc"
proof -
  assume "is_dict tc"
  moreover have "map fst (map (\<lambda>(color, rgb). (color, 0::int)) tc) = map fst tc"
    by (induction tc) auto
  ultimately show ?thesis by (simp only: is_dict_def dict_of_items_distinct)
qed

lemma analyze_histogram_counts:
  assumes "is_dict tc"
  shows "count_loop np tc hist (dict_of_items (map (\<lambda>(color, rgb). (color, 0)) tc), 0) =
           (if \<forall>x\<in>set hist. \<exists>cl. get_color_name np (fst x) tc = Inr cl
            then Inr (map (\<lambda>(k, rgb). (k, assigned np tc hist k)) tc, sum_list (map snd hist))
            else Inl OverflowError)"
proof -
  let ?cc = "map (\<lambda>(color, rgb). (color, 0::int)) tc"
  have keys: "map fst ?cc = map fst tc" by (induction tc) auto
  have "is_dict ?cc" "set (map fst tc) \<subseteq> set (map fst ?cc)"
    using assms keys by (simp_all only: is_dict_def)
  note closed = count_loop_closed[OF this, of np hist 0]
  have "map (\<lambda>(k, v). (k, v + assigned np tc hist k)) ?cc =
        map (\<lambda>(k, rgb). (k, assigned np tc hist k)) tc"
    by (induction tc) auto
  with closed show ?thesis by (simp only: initial_counts[OF assms]) simp
qed

lemma analyze_histogram_closed:
  assumes "is_dict tc" and "palette_fits np tc" and "sum_list (map snd hist) \<noteq> 0"
  shows "analyze_histogram np tc hist =
           Inr (map (\<lambda>(k, rgb). (k, assigned np tc hist k)) tc,
                map (\<lambda>(k, rgb). (k @ ''_percent'',
                                   Format6 (assigned np tc hist k) (sum_list (map snd hist)))) tc)"
proof -
  let ?cc = "map (\<lambda>(k, rgb). (k, assigned np tc hist k)) tc"
  let ?tot = "sum_list (map snd hist)"
  have keys: "map fst ?cc = map fst tc" by (induction tc) auto
  then have "distinct (map fst ?cc)" using assms(1) by (simp only: is_dict_def)
  from percent_keys_distinct[OF this, of "\<lambda>k v. Format6 v ?tot"]
  have "dict_of_items (map (\<lambda>(k, v). (k @ ''_percent'', Format6 v ?tot)) ?cc) =
          map (\<lambda>(k, v). (k @ ''_percent'', Format6 v ?tot)) ?cc"
    by (rule dict_of_items_distinct)
  moreover have "map (\<lambda>(k, v). (k @ ''_percent'', Format6 v ?tot)) ?cc =
      map (\<lambda>(k, rgb). (k @ ''_percent'', Format6 (assigned np tc hist k) ?tot)) tc"
    by (induction tc) auto
  moreover have "count_loop np tc hist (dict_of_items (map (\<lambda>(color, rgb). (color, 0)) tc), 0) =
                   Inr (?cc, ?tot)"
    using colours_defined[OF assms(2), of hist]
    by (simp only: analyze_histogram_counts[OF assms(1)] if_P)
  ultimately show ?thesis
    using assms(3)
    by (simp add: analyze_histogram_def percent_items_nonzero del: map_map)
qed

lemma analyze_histogram_no_pixels:
  assumes "tc \<noteq> []"
  shows "analyze_histogram np tc [] = Inl ZeroDivisionError"
proof -
  have "dict_of_items (map (\<lambda>(color, rgb). (color, 0::int)) tc) \<noteq> []"
    using assms by (intro dict_of_items_nonempty) simp
  then show ?thesis by (simp add: analyze_histogram_def percent_items_zero)
qed

lemma analyze_histogram_no_palette: "analyze_histogram np [] hist = Inr ([], [])"
  by (simp add: analyze_histogram_def dict_of_items_def count_loop_empty_palette)

subsection \<open>The histogram of a grid\<close>

lemma analyze_image_colors_histogram:
  "analyze_image_colors np data tc = analyze_histogram np tc (histogram data)"
  by (simp add: analyze_image_colors_def histogram_def np_unique_def Let_def)

lemma histogram_counts:
  "map snd (histogram data) =
     map (\<lambda>color. int (count_list (concat data) color)) (sort (remdups (concat data)))"
  by (simp add: histogram_def np_unique_def Let_def)

lemma histogram_empty:
  assumes "concat data = []"
  shows "histogram data = []"
  unfolding histogram_def np_unique_def Let_def assms by simp

lemma histogram_total: "sum_list (map snd (histogram data)) = int (length (concat data))"
proof -
  let ?flat = "concat data"
  have "sum_list (map (\<lambda>color. int (count_list ?flat color)) (sort (remdups ?flat))) =
        sum (\<lambda>color. int (count_list ?flat color)) (set (sort (remdups ?flat)))"
    by (rule sum_list_distinct_conv_sum_set) simp
  also have "\<dots> = int (sum (count_list ?flat) (set ?flat))" by simp
  also have "\<dots> = int (length ?flat)" by (simp add: sum_count_set)
  finally show ?thesis by (simp only: histogram_counts)
qed

lemma rectangular_size: "rectangular w data \<Longrightarrow> length (concat data) = length data * w"
  by (induction data) (simp_all add: rectangular_def)

subsection \<open>Sums of the attributed pixels\<close>

lemma sum_indicator_key:
  "distinct (map fst tc) \<Longrightarrow> n \<in> set (map fst tc) \<Longrightarrow>
   sum_list (map (\<lambda>(k, rgb). if n = k then cnt else (0::int)) tc) = cnt"
proof (induction tc)
  case Nil
  then show ?case by simp
next
  case (Cons x tc)
  obtain k r where x: "x = (k, r)" by (cases x)
  show ?case
  proof (cases "k = n")
    case True
    with Cons.prems x have "n \<notin> set (map fst tc)" by simp
    then have "sum_list (map (\<lambda>(k, rgb). if n = k then cnt else (0::int)) tc) = 0"
      by (induction tc) auto
    with True x show ?thesis by simp
  next
    case False
    with Cons x show ?thesis by auto
  qed
qed

lemma assigned_total:
  assumes "is_dict tc" and "tc \<noteq> []"
    and "\<forall>x\<in>set hist. \<exists>cl. get_color_name np (fst x) tc = Inr cl"
  shows "sum_list (map (\<lambda>(k, rgb). assigned np tc hist k) tc) = sum_list (map snd hist)"
  using assms(3)
proof (induction hist)
  case Nil
  show ?case by (simp add: assigned_Nil case_prod_unfold)
next
  case (Cons x hist)
  obtain c cnt where x: "x = (c, cnt)" by (cases x)
  from Cons.prems x obtain cl where cl: "get_color_name np c tc = Inr cl" by auto
  from get_color_name_split[OF assms(2) cl]
  obtain n where n: "get_color_name np c tc = Inr (Some n)" "n \<in> set (map fst tc)"
    using cl by force
  have "sum_list (map (\<lambda>(k, rgb). assigned np tc (x # hist) k) tc) =
        sum_list (map (\<lambda>(k, rgb). if n = k then cnt else 0) tc) +
        sum_list (map (\<lambda>(k, rgb). assigned np tc hist k) tc)"
    by (simp add: x assigned_Cons n case_prod_unfold sum_list_addf)
  also have "\<dots> = cnt + sum_list (map snd hist)"
    using assms(1) n(2) Cons by (simp add: is_dict_def sum_indicator_key)
  finally show ?case by (simp add: x)
qed

lemma assigned_bounds:
  assumes "\<forall>e\<in>set hist. 0 \<le> snd e"
  shows "0 \<le> assigned np tc hist k \<and> assigned np tc hist k \<le> sum_list (map snd hist)"
  using assms
proof (induction hist)
  case Nil
  show ?case by (simp add: assigned_Nil)
next
  case (Cons x hist)
  then show ?case by (cases x) (auto simp: assigned_Cons)
qed

lemma histogram_nonneg: "\<forall>e\<in>set (histogram data). 0 \<le> snd e"
proof -
  have "\<forall>n\<in>set (map snd (histogram data)). 0 \<le> n"
    by (simp only: histogram_counts) auto
  then show ?thesis by auto
qed




lemma map_of_counts:
  "name \<in> set (map fst tc) \<Longrightarrow> map_of (map (\<lambda>(k, rgb). (k, f k)) tc) name = Some (f name)"
  by (induction tc) auto

lemma map_of_percentages:
  "name \<in> set (map fst tc) \<Longrightarrow>
   map_of (map (\<lambda>(k, rgb). (k @ ''_percent'', f k)) tc) (name @ ''_percent'') = Some (f name)"
  by (induction tc) auto

lemma analyze_image_colors_closed:
  assumes "is_dict tc" and "palette_fits np tc" and "concat data \<noteq> []"
  shows "analyze_image_colors np data tc =
           Inr (map (\<lambda>(k, rgb). (k, assigned np tc (histogram data) k)) tc,
                map (\<lambda>(k, rgb). (k @ ''_percent'',
                       Format6 (assigned np tc (histogram data) k) (int (length (concat data))))) tc)"
proof -
  have "sum_list (map snd (histogram data)) \<noteq> 0"
    using assms(3) by (simp only: histogram_total) simp
  from analyze_histogram_closed[OF assms(1,2) this] show ?thesis
    by (simp only: analyze_image_colors_histogram histogram_total)
qed

subsection \<open>Traversal order and ties\<close>



subsection \<open>What a call stores\<close>

lemma count_loop_heap_frame:
  assumes "deref h tc_ref = Some (Colors tc)" and "deref h cc_ref = Some (Counts cc)"
  shows "\<exists>cc''. snd (count_loop_heap np tc_ref cc_ref hist t h) = h[cc_ref := Counts cc''] \<and>
           (case count_loop np tc hist (cc, t) of
              Inl e \<Rightarrow> fst (count_loop_heap np tc_ref cc_ref hist t h) = Inl e
            | Inr (cc', t') \<Rightarrow>
                fst (count_loop_heap np tc_ref cc_ref hist t h) = Inr t' \<and> cc'' = cc')"
  using assms
proof (induction hist arbitrary: cc t h)
  case Nil
  then have "h ! cc_ref = Counts cc"
    by (auto simp: deref_def split: if_splits)
  then have "h[cc_ref := Counts cc] = h"
    by (metis list_update_id)
  then show ?case by auto
next
  case (Cons x hist)
  obtain c cnt where x: "x = (c, cnt)" by (cases x)
  from Cons.prems have len: "tc_ref < length h" "cc_ref < length h"
    and at: "h ! tc_ref = Colors tc" "h ! cc_ref = Counts cc"
    by (auto simp: deref_def split: if_splits)
  then have neq: "tc_ref \<noteq> cc_ref" by auto
  have unchanged: "\<exists>cc''. h = h[cc_ref := Counts cc'']"
    using at(2) by (metis list_update_id)
  have same: "\<exists>cc''. snd (count_loop_heap np tc_ref cc_ref (x # hist) t h) = h[cc_ref := Counts cc''] \<and>
           (case count_loop np tc (x # hist) (cc, t) of
              Inl e \<Rightarrow> fst (count_loop_heap np tc_ref cc_ref (x # hist) t h) = Inl e
            | Inr (cc', t') \<Rightarrow>
                fst (count_loop_heap np tc_ref cc_ref (x # hist) t h) = Inr t' \<and> cc'' = cc')"
    if heap: "count_loop_heap np tc_ref cc_ref (x # hist) t h
                = count_loop_heap np tc_ref cc_ref hist (t + cnt) h"
      and pure: "count_loop np tc (x # hist) (cc, t) = count_loop np tc hist (cc, t + cnt)"
    using Cons.IH[OF Cons.prems, of "t + cnt"] by (simp only: heap pure)
  show ?case
  proof (cases "get_color_name np c tc")
    case (Inl e)
    with unchanged show ?thesis by (simp add: x Cons.prems)
  next
    case (Inr cl)
    show ?thesis
    proof (cases cl)
      case None
      show ?thesis
        by (rule same) (simp_all add: x Inr None Cons.prems)
    next
      case (Some n)
      show ?thesis
      proof (cases "dict_contains tc n")
        case False
        show ?thesis
          by (rule same) (simp_all add: x Inr Some False Cons.prems)
      next
        case True
        show ?thesis
        proof (cases "add_count cc n cnt")
          case (Inl e)
          with unchanged show ?thesis by (simp add: x Inr Some True Cons.prems)
        next
          case upd: (Inr cc1)
          let ?h = "h[cc_ref := Counts cc1]"
          have p1: "deref ?h tc_ref = Some (Colors tc)"
            using len at neq by (simp add: deref_def)
          have p2: "deref ?h cc_ref = Some (Counts cc1)"
            using len by (simp add: deref_def)
          have heap: "count_loop_heap np tc_ref cc_ref (x # hist) t h
                        = count_loop_heap np tc_ref cc_ref hist (t + cnt) ?h"
            by (simp add: x Inr Some True upd Cons.prems)
          have pure: "count_loop np tc (x # hist) (cc, t) = count_loop np tc hist (cc1, t + cnt)"
            by (simp add: x Inr Some True upd)
          from Cons.IH[OF p1 p2, of "t + cnt"] show ?thesis
            by (simp only: heap pure list_update_overwrite)
        qed
      qed
    qed
  qed
qed

lemma analyze_image_colors_heap_result:
  assumes d: "deref h data_ref = Some (Grid data)" and t: "deref h tc_ref = Some (Colors tc)"
  shows "\<exists>cc''. (case analyze_image_colors np data tc of
            Inl e \<Rightarrow> analyze_image_colors_heap np data_ref tc_ref h = (Inl e, h @ [Counts cc''])
          | Inr (cc, pc) \<Rightarrow>
              analyze_image_colors_heap np data_ref tc_ref h
                = (Inr (length h, Suc (length h)), h @ [Counts cc, Percentages pc]))"
proof -
  let ?cc0 = "dict_of_items (map (\<lambda>(color, rgb). (color, 0::int)) tc)"
  let ?h1 = "h @ [Counts ?cc0]"
  let ?hist = "histogram data"
  let ?run = "count_loop_heap np tc_ref (length h) ?hist 0 ?h1"
  from t have len: "tc_ref < length h" and at: "h ! tc_ref = Colors tc"
    by (auto simp: deref_def split: if_splits)
  have p1: "deref ?h1 tc_ref = Some (Colors tc)"
    using len at by (simp add: deref_def nth_append)
  have p2: "deref ?h1 (length h) = Some (Counts ?cc0)"
    by (simp add: deref_def)
  have heap: "analyze_image_colors_heap np data_ref tc_ref h =
      (case ?run of
         (Inl e, h2) \<Rightarrow> (Inl e, h2)
       | (Inr total_pixels, h2) \<Rightarrow>
           (case deref h2 (length h) of
              Some (Counts color_counts) \<Rightarrow>
                (case percent_items color_counts total_pixels of
                   Inl e \<Rightarrow> (Inl e, h2)
                 | Inr items \<Rightarrow>
                     (Inr (length h, length h2), h2 @ [Percentages (dict_of_items items)]))
            | _ \<Rightarrow> (Inl TypeError, h2)))"
    by (simp add: analyze_image_colors_heap_def d t alloc_def histogram_def np_unique_def Let_def
        split: prod.splits sum.splits option.splits obj.splits)
  have pure: "analyze_image_colors np data tc =
      (case count_loop np tc ?hist (?cc0, 0) of
         Inl e \<Rightarrow> Inl e
       | Inr (color_counts, total_pixels) \<Rightarrow>
           (case percent_items color_counts total_pixels of
              Inl e \<Rightarrow> Inl e
            | Inr items \<Rightarrow> Inr (color_counts, dict_of_items items)))"
    by (simp add: analyze_image_colors_histogram analyze_histogram_def)
  from count_loop_heap_frame[OF p1 p2, of np ?hist 0]
  obtain cc'' where h2: "snd ?run = h @ [Counts cc'']"
    and rel: "case count_loop np tc ?hist (?cc0, 0) of
                Inl e \<Rightarrow> fst ?run = Inl e
              | Inr (cc', t') \<Rightarrow> fst ?run = Inr t' \<and> cc'' = cc'"
    by auto
  show ?thesis
  proof (cases "count_loop np tc ?hist (?cc0, 0)")
    case (Inl e)
    with rel h2 have "?run = (Inl e, h @ [Counts cc''])" by (simp add: prod_eq_iff)
    then have "analyze_image_colors_heap np data_ref tc_ref h = (Inl e, h @ [Counts cc''])"
      by (simp only: heap) simp
    moreover have "analyze_image_colors np data tc = Inl e" by (simp only: pure Inl) simp
    ultimately show ?thesis by auto
  next
    case (Inr res)
    obtain cc' t' where res: "res = (cc', t')" by (cases res)
    with rel h2 Inr have run: "?run = (Inr t', h @ [Counts cc'])" by (simp add: prod_eq_iff)
    have at2: "deref (h @ [Counts cc']) (length h) = Some (Counts cc')" by (simp add: deref_def)
    show ?thesis
    proof (cases "percent_items cc' t'")
      case (Inl e)
      have "analyze_image_colors_heap np data_ref tc_ref h = (Inl e, h @ [Counts cc'])"
        by (simp only: heap run) (simp add: at2 Inl)
      moreover have "analyze_image_colors np data tc = Inl e"
        by (simp only: pure Inr res) (simp add: Inl)
      ultimately show ?thesis by auto
    next
      case items: (Inr items)
      have "analyze_image_colors_heap np data_ref tc_ref h =
              (Inr (length h, Suc (length h)), h @ [Counts cc', Percentages (dict_of_items items)])"
        by (simp only: heap run) (simp add: at2 items)
      moreover have "analyze_image_colors np data tc = Inr (cc', dict_of_items items)"
        by (simp only: pure Inr res) (simp add: items)
      ultimately show ?thesis by auto
    qed
  qed
qed

section \<open>The claims\<close>

text \<open>
  C1. For every palette with at least one entry and every rectangular grid with at least
  one row and one column, \<^verbatim>\<open>analyze_image_colors\<close> returns; the keys of the counts are the
  palette's names, in the palette's order, with no other bucket; the count under a name
  is the number of pixels whose colour \<^verbatim>\<open>get_color_name\<close> gives to that name; every colour
  of the histogram is given to a name of the palette; and the counts add up to width times
  height, which is the sum of the occurrence counts of the histogram. (Under NumPy 2 the
  components of the palette are 8-bit values, as the specification has them; otherwise
  the call raises \<^verbatim>\<open>OverflowError\<close>.)
\<close>

theorem counts_sum_to_grid_size:
  assumes "is_dict tc" and "tc \<noteq> []" and "palette_fits np tc"
    and "data \<noteq> []" and "0 < w" and "rectangular w data"
  shows "\<exists>cc pc. analyze_image_colors np data tc = Inr (cc, pc) \<and>
           map fst cc = map fst tc \<and>
           (\<forall>name\<in>set (map fst tc).
              map_of cc name = Some (assigned np tc (histogram data) name)) \<and>
           (\<forall>x\<in>set (histogram data). \<exists>name.
              get_color_name np (fst x) tc = Inr (Some name) \<and> dict_contains tc name) \<and>
           sum_list (map snd cc) = int (w * length data) \<and>
           sum_list (map snd cc) = sum_list (map snd (histogram data))"
proof -
  let ?hist = "histogram data"
  have size: "length (concat data) = length data * w"
    using assms(6) by (rule rectangular_size)
  with assms(4,5) have "0 < length (concat data)" by simp
  then have "concat data \<noteq> []" by (rule length_greater_0_conv[THEN iffD1])
  note closed = analyze_image_colors_closed[OF assms(1,3) this]
  let ?cc = "map (\<lambda>(k, rgb). (k, assigned np tc ?hist k)) tc"
  have keys: "map fst ?cc = map fst tc" by (induction tc) auto
  have each: "\<forall>name\<in>set (map fst tc). map_of ?cc name = Some (assigned np tc ?hist name)"
    using map_of_counts[of _ tc "assigned np tc ?hist"] by blast
  have given: "\<forall>x\<in>set ?hist. \<exists>name.
      get_color_name np (fst x) tc = Inr (Some name) \<and> dict_contains tc name"
  proof
    fix x assume "x \<in> set ?hist"
    from get_color_name_total[OF assms(3), of "fst x"]
    obtain cl where cl: "get_color_name np (fst x) tc = Inr cl" by blast
    from get_color_name_split[OF assms(2) cl] obtain name where "cl = Some name" by blast
    with cl get_color_name_contains[of np "fst x" tc name]
    show "\<exists>name. get_color_name np (fst x) tc = Inr (Some name) \<and> dict_contains tc name"
      by blast
  qed
  have "map snd ?cc = map (\<lambda>(k, rgb). assigned np tc ?hist k) tc"
    by (induction tc) auto
  then have s1: "sum_list (map snd ?cc) = sum_list (map snd ?hist)"
    using assigned_total[OF assms(1,2) colours_defined[OF assms(3)], of ?hist] by (simp only:)
  have s2: "sum_list (map snd ?hist) = int (w * length data)"
    using size by (simp only: histogram_total mult.commute)
  from closed keys each given s1 s2 show ?thesis by (simp only:) blast
qed

theorem counts_sum_to_grid_size_witness:
  "is_dict target_colors \<and> target_colors \<noteq> [] \<and> palette_fits NumPy2 target_colors \<and>
   [[(255, 105, 180), (255, 105, 180), (1, 1, 1)],
    [(255, 105, 180), (1, 1, 1), (255, 255, 255)]] \<noteq> ([]::pixel list list) \<and>
   (0::nat) < 3 \<and>
   rectangular 3 [[(255, 105, 180), (255, 105, 180), (1, 1, 1)],
                  [(255, 105, 180), (1, 1, 1), (255, 255, 255)::pixel]] \<and>
   (\<exists>cc pc. analyze_image_colors NumPy2
               [[(255, 105, 180), (255, 105, 180), (1, 1, 1)],
                [(255, 105, 180), (1, 1, 1), (255, 255, 255)]] target_colors = Inr (cc, pc) \<and>
            map fst cc = map fst target_colors \<and>
            sum_list (map snd cc) = 6)"
proof -
  let ?data = "[[(255, 105, 180), (255, 105, 180), (1, 1, 1)],
                [(255, 105, 180), (1, 1, 1), (255, 255, 255)]] :: pixel list list"
  have a: "is_dict target_colors" by (simp add: is_dict_def target_colors_def dict_of_items_def)
  have b: "target_colors \<noteq> []" by (simp add: target_colors_def dict_of_items_def)
  have c: "palette_fits NumPy2 target_colors" by (simp add: target_colors_def dict_of_items_def)
  have d: "?data \<noteq> []" by simp
  have e: "(0::nat) < 3" by simp
  have f: "rectangular 3 ?data" by (simp add: rectangular_def)
  have "\<exists>cc pc. analyze_image_colors NumPy2 ?data target_colors = Inr (cc, pc) \<and>
          map fst cc = map fst target_colors \<and> sum_list (map snd cc) = 6"
    using counts_sum_to_grid_size[OF a b c d e f] by auto
  with a b c d e f show ?thesis by blast
qed

text \<open>
  Under \<open>NumPy1\<close> \<^verbatim>\<open>get_color_name\<close> returns the first entry at the least exact distance:
  every entry before the chosen one is strictly farther, every entry after it at least as
  far, and the distance of two triples is \<open>(r - pr)\<^sup>2 + (g - pg)\<^sup>2 + (b - pb)\<^sup>2\<close>.
\<close>

lemma get_color_name_nearest_first_numpy1:
  assumes "tc \<noteq> []"
  shows "(\<exists>pre name rgb post.
            tc = pre @ (name, rgb) # post \<and> get_color_name NumPy1 c tc = Inr (Some name) \<and>
            (\<forall>e\<in>set pre. exact_sq_dist c rgb < exact_sq_dist c (snd e)) \<and>
            (\<forall>e\<in>set post. exact_sq_dist c rgb \<le> exact_sq_dist c (snd e))) \<and>
         exact_sq_dist [r, g, b] [pr, pg, pb]
           = (uint r - pr)\<^sup>2 + (uint g - pg)\<^sup>2 + (uint b - pb)\<^sup>2"
proof
  have "palette_fits NumPy1 tc" by simp
  from get_color_name_total[OF this, of c]
  obtain cl where cl: "get_color_name NumPy1 c tc = Inr cl" by blast
  from get_color_name_split[OF assms cl]
  show "\<exists>pre name rgb post.
            tc = pre @ (name, rgb) # post \<and> get_color_name NumPy1 c tc = Inr (Some name) \<and>
            (\<forall>e\<in>set pre. exact_sq_dist c rgb < exact_sq_dist c (snd e)) \<and>
            (\<forall>e\<in>set post. exact_sq_dist c rgb \<le> exact_sq_dist c (snd e))"
    using cl by (simp only: sq_dist_exact) fastforce
  show "exact_sq_dist [r, g, b] [pr, pg, pb]
           = (uint r - pr)\<^sup>2 + (uint g - pg)\<^sup>2 + (uint b - pb)\<^sup>2"
    by (simp add: exact_sq_dist_def)
qed

text \<open>
  C2 fails on the code under \<open>NumPy2\<close>. For the pixel (1, 1, 1) and the module's palette
  the exact squared distances are 107373, 38089, 132300, 42690 and 193548, so the nearest
  entry is \<^verbatim>\<open>darkcyan\<close>; the 8-bit arithmetic of line 50 gives 109, 201, 204, 194 and 12,
  and \<^verbatim>\<open>get_color_name\<close> returns \<^verbatim>\<open>white\<close>, the farthest entry. Under \<open>NumPy1\<close> it returns
  \<^verbatim>\<open>darkcyan\<close>.
\<close>

theorem get_color_name_wraps_around:
  "get_color_name NumPy2 (tuple_of (1, 1, 1)) target_colors = Inr (Some ''white'') \<and>
   get_color_name NumPy1 (tuple_of (1, 1, 1)) target_colors = Inr (Some ''darkcyan'') \<and>
   map (\<lambda>(name, rgb). sq_dist NumPy2 (tuple_of (1, 1, 1)) rgb) target_colors
     = [Inr 109, Inr 201, Inr 204, Inr 194, Inr 12] \<and>
   map (\<lambda>(name, rgb). exact_sq_dist (tuple_of (1, 1, 1)) rgb) target_colors
     = [107373, 38089, 132300, 42690, 193548]"
  by (simp add: get_color_name_def sq_dist_def exact_sq_dist_def tuple_of_def target_colors_def
      dict_of_items_def)

text \<open>
  C4, as the code has it. With a palette that has no entry \<^verbatim>\<open>analyze_image_colors\<close> raises
  nothing: \<^verbatim>\<open>get_color_name\<close> returns \<^verbatim>\<open>None\<close> for every colour, the guard
  \<^verbatim>\<open>color_name in target_colors\<close> skips the accumulation, no percentage is computed, and
  the call returns two empty dictionaries, whatever the grid.
\<close>

theorem empty_palette_returns_empty: "analyze_image_colors np data [] = Inr ([], [])"
  by (simp only: analyze_image_colors_histogram analyze_histogram_no_palette)

text \<open>
  C4 as stated fails: on a grid of one pixel and the empty palette the call returns, and
  the result is not an \<open>EmptyPalette\<close> error.
\<close>

theorem empty_palette_counterexample:
  "analyze_image_colors NumPy1 [[(0, 0, 0)]] [] = Inr ([], []) \<and>
   analyze_image_colors NumPy1 [[(0, 0, 0)]] [] \<noteq> Inl EmptyPalette \<and>
   analyze_image_colors NumPy2 [[(0, 0, 0)]] [] = Inr ([], []) \<and>
   analyze_image_colors NumPy2 [[(0, 0, 0)]] [] \<noteq> Inl EmptyPalette"
  by (simp add: analyze_image_colors_histogram analyze_histogram_no_palette)

text \<open>
  C5, as the code has it. With a palette that has at least one entry and a grid without
  pixels, \<^verbatim>\<open>analyze_image_colors\<close> raises \<^verbatim>\<open>ZeroDivisionError\<close>, from the division by
  \<^verbatim>\<open>total_pixels\<close> of line 90, and returns no result.
\<close>

theorem empty_grid_zero_division:
  assumes "tc \<noteq> []" and "concat data = []"
  shows "analyze_image_colors np data tc = Inl ZeroDivisionError"
proof -
  have "analyze_image_colors np data tc = analyze_histogram np tc []"
    using assms(2) by (simp only: analyze_image_colors_histogram histogram_empty)
  also have "\<dots> = Inl ZeroDivisionError" using assms(1) by (rule analyze_histogram_no_pixels)
  finally show ?thesis .
qed

theorem empty_grid_zero_division_witness:
  "[(''white'', [255::int, 255, 255])] \<noteq> [] \<and> concat [[], []] = ([]::pixel list) \<and>
   analyze_image_colors NumPy1 [[], []] [(''white'', [255, 255, 255])] = Inl ZeroDivisionError \<and>
   analyze_image_colors NumPy2 [[], []] [(''white'', [255, 255, 255])] = Inl ZeroDivisionError"
proof -
  have a: "[(''white'', [255::int, 255, 255])] \<noteq> []" by simp
  have b: "concat [[], []] = ([]::pixel list)" by simp
  show ?thesis
    using a b empty_grid_zero_division[OF a b, of NumPy1] empty_grid_zero_division[OF a b, of NumPy2]
    by simp
qed

text \<open>
  C5 as stated fails in the kind of the error: on the grid without rows the exception is
  \<^verbatim>\<open>ZeroDivisionError\<close>, not \<open>EmptyImage\<close>.
\<close>

theorem empty_grid_counterexample:
  "analyze_image_colors NumPy1 [] [(''white'', [255, 255, 255])] = Inl ZeroDivisionError \<and>
   analyze_image_colors NumPy1 [] [(''white'', [255, 255, 255])] \<noteq> Inl EmptyImage \<and>
   analyze_image_colors NumPy2 [] [(''white'', [255, 255, 255])] = Inl ZeroDivisionError \<and>
   analyze_image_colors NumPy2 [] [(''white'', [255, 255, 255])] \<noteq> Inl EmptyImage"
  by (simp add: analyze_image_colors_histogram histogram_empty analyze_histogram_no_pixels)

text \<open>
  C3, as the code has it. For every palette and every grid with a pixel, the call returns,
  and for each palette name the percentages dictionary has an entry under the key
  \<^verbatim>\<open>name + '_percent'\<close> (not under the name itself), whose value is the six-decimal string
  made from \<^verbatim>\<open>counts[name] / total_pixels\<close>, with \<^verbatim>\<open>total_pixels\<close> the number of pixels of
  the grid; that quotient lies between 0 and 1. This holds under either NumPy; under
  NumPy 2 the components of the palette are 8-bit values, as the specification has them
  (otherwise the call raises \<^verbatim>\<open>OverflowError\<close>).
\<close>

theorem percentages_per_name:
  assumes "is_dict tc" and "palette_fits np tc" and "concat data \<noteq> []"
  shows "\<exists>cc pc. analyze_image_colors np data tc = Inr (cc, pc) \<and>
           (\<forall>name\<in>set (map fst tc). \<exists>cnt.
              map_of cc name = Some cnt \<and>
              map_of pc (name @ ''_percent'') = Some (Format6 cnt (int (length (concat data)))) \<and>
              ratio (Format6 cnt (int (length (concat data))))
                = real_of_int cnt / real (length (concat data)) \<and>
              0 \<le> ratio (Format6 cnt (int (length (concat data)))) \<and>
              ratio (Format6 cnt (int (length (concat data)))) \<le> 1)"
proof -
  let ?hist = "histogram data"
  let ?n = "length (concat data)"
  let ?cc = "map (\<lambda>(k, rgb). (k, assigned np tc ?hist k)) tc"
  let ?pc = "map (\<lambda>(k, rgb). (k @ ''_percent'', Format6 (assigned np tc ?hist k) (int ?n))) tc"
  have res: "analyze_image_colors np data tc = Inr (?cc, ?pc)"
    using assms by (rule analyze_image_colors_closed)
  have pos: "0 < ?n" using assms(3) by simp
  have "\<exists>cnt. map_of ?cc name = Some cnt \<and>
              map_of ?pc (name @ ''_percent'') = Some (Format6 cnt (int ?n)) \<and>
              ratio (Format6 cnt (int ?n)) = real_of_int cnt / real ?n \<and>
              0 \<le> ratio (Format6 cnt (int ?n)) \<and> ratio (Format6 cnt (int ?n)) \<le> 1"
    if name: "name \<in> set (map fst tc)" for name
  proof -
    let ?cnt = "assigned np tc ?hist name"
    from assigned_bounds[where hist = "histogram data" and np = np and tc = tc and k = name,
        OF histogram_nonneg]
    have b: "0 \<le> ?cnt" "?cnt \<le> int ?n" by (simp_all only: histogram_total)
    have "map_of ?cc name = Some ?cnt"
      using name by (rule map_of_counts)
    moreover have "map_of ?pc (name @ ''_percent'') = Some (Format6 ?cnt (int ?n))"
      using map_of_percentages[OF name, of "\<lambda>k. Format6 (assigned np tc ?hist k) (int ?n)"] .
    moreover have "ratio (Format6 ?cnt (int ?n)) = real_of_int ?cnt / real ?n" by simp
    moreover have "0 \<le> ratio (Format6 ?cnt (int ?n))" using b(1) by simp
    moreover have "ratio (Format6 ?cnt (int ?n)) \<le> 1"
    proof -
      have "real_of_int ?cnt \<le> real ?n" using b(2) by linarith
      then show ?thesis using pos by simp
    qed
    ultimately show ?thesis by blast
  qed
  with res show ?thesis by blast
qed

theorem percentages_per_name_witness:
  "is_dict [(''white'', [255, 255, 255]), (''blue'', [0, 93, 186::int])] \<and>
   palette_fits NumPy2 [(''white'', [255, 255, 255]), (''blue'', [0, 93, 186])] \<and>
   concat [[(255, 255, 255), (0, 0, 200), (250, 250, 250), (0, 0, 1)::pixel]] \<noteq> [] \<and>
   analyze_image_colors NumPy2 [[(255, 255, 255), (0, 0, 200), (250, 250, 250), (0, 0, 1)]]
     [(''white'', [255, 255, 255]), (''blue'', [0, 93, 186])]
     = Inr ([(''white'', 3), (''blue'', 1)],
            [(''white_percent'', Format6 3 4), (''blue_percent'', Format6 1 4)]) \<and>
   ratio (Format6 3 4) = 3 / 4 \<and>
   (\<exists>cc pc. analyze_image_colors NumPy2
               [[(255, 255, 255), (0, 0, 200), (250, 250, 250), (0, 0, 1)]]
               [(''white'', [255, 255, 255]), (''blue'', [0, 93, 186])] = Inr (cc, pc) \<and>
      (\<forall>name\<in>set (map fst [(''white'', [255, 255, 255]), (''blue'', [0, 93, 186::int])]). \<exists>cnt.
          map_of cc name = Some cnt \<and>
          map_of pc (name @ ''_percent'') = Some (Format6 cnt 4) \<and>
          0 \<le> ratio (Format6 cnt 4) \<and> ratio (Format6 cnt 4) \<le> 1))"
proof -
  let ?tc = "[(''white'', [255, 255, 255]), (''blue'', [0, 93, 186::int])]"
  let ?data = "[[(255, 255, 255), (0, 0, 200), (250, 250, 250), (0, 0, 1)::pixel]]"
  have a: "is_dict ?tc" by (simp add: is_dict_def)
  have f: "palette_fits NumPy2 ?tc" by simp
  have b: "concat ?data \<noteq> []" by simp
  have c: "analyze_image_colors NumPy2 ?data ?tc
     = Inr ([(''white'', 3), (''blue'', 1)],
            [(''white_percent'', Format6 3 4), (''blue_percent'', Format6 1 4)])"
    by (simp add: analyze_image_colors_def analyze_histogram_def np_unique_def tuple_of_def
        dict_of_items_def get_color_name_def sq_dist_def dict_contains_def add_count_def)
  have d: "ratio (Format6 3 4) = 3 / 4" by simp
  have "\<exists>cc pc. analyze_image_colors NumPy2 ?data ?tc = Inr (cc, pc) \<and>
      (\<forall>name\<in>set (map fst ?tc). \<exists>cnt.
          map_of cc name = Some cnt \<and>
          map_of pc (name @ ''_percent'') = Some (Format6 cnt 4) \<and>
          0 \<le> ratio (Format6 cnt 4) \<and> ratio (Format6 cnt 4) \<le> 1)"
    using percentages_per_name[OF a f b] by simp
  with a f b c d show ?thesis by blast
qed

text \<open>
  C3 as stated fails: the percentages dictionary has no entry under a palette name. On a
  grid of one white pixel and the palette with the one entry \<^verbatim>\<open>white\<close>, it has the one key
  \<^verbatim>\<open>white_percent\<close>, under either NumPy.
\<close>

theorem percentages_key_counterexample:
  "analyze_image_colors NumPy1 [[(255, 255, 255)]] [(''white'', [255, 255, 255])]
     = Inr ([(''white'', 1)], [(''white_percent'', Format6 1 1)]) \<and>
   analyze_image_colors NumPy2 [[(255, 255, 255)]] [(''white'', [255, 255, 255])]
     = Inr ([(''white'', 1)], [(''white_percent'', Format6 1 1)]) \<and>
   map_of [(''white_percent'', Format6 1 1)] ''white'' = None"
  by (simp add: analyze_image_colors_def analyze_histogram_def np_unique_def tuple_of_def
      dict_of_items_def get_color_name_def sq_dist_def exact_sq_dist_def dict_contains_def
      add_count_def)

text \<open>
  C6, as the code has it. For every palette and every grid with a pixel, the keys of the
  counts dictionary are the palette's names in the palette's order, the keys of the
  percentages dictionary are those names each followed by \<^verbatim>\<open>_percent\<close>, in the same order,
  every count is non-negative and so is the quotient behind every percentage. This holds
  under either NumPy; under NumPy 2 the components of the palette are 8-bit values, as
  the specification has them (otherwise the call raises \<^verbatim>\<open>OverflowError\<close>).
\<close>

theorem result_keys_and_signs:
  assumes "is_dict tc" and "palette_fits np tc" and "concat data \<noteq> []"
  shows "\<exists>cc pc. analyze_image_colors np data tc = Inr (cc, pc) \<and>
           map fst cc = map fst tc \<and>
           map fst pc = map (\<lambda>name. name @ ''_percent'') (map fst tc) \<and>
           (\<forall>e\<in>set cc. 0 \<le> snd e) \<and>
           (\<forall>e\<in>set pc. 0 \<le> ratio (snd e))"
proof -
  let ?hist = "histogram data"
  let ?n = "length (concat data)"
  let ?cc = "map (\<lambda>(k, rgb). (k, assigned np tc ?hist k)) tc"
  let ?pc = "map (\<lambda>(k, rgb). (k @ ''_percent'', Format6 (assigned np tc ?hist k) (int ?n))) tc"
  have res: "analyze_image_colors np data tc = Inr (?cc, ?pc)"
    using assms by (rule analyze_image_colors_closed)
  have nonneg: "0 \<le> assigned np tc ?hist k" for k
    using assigned_bounds[where hist = "histogram data" and np = np and tc = tc and k = k,
        OF histogram_nonneg] by simp
  have k1: "map fst ?cc = map fst tc" by (induction tc) auto
  have k2: "map fst ?pc = map (\<lambda>name. name @ ''_percent'') (map fst tc)"
    by (induction tc) auto
  have s1: "\<forall>e\<in>set ?cc. 0 \<le> snd e" using nonneg by auto
  have s2: "\<forall>e\<in>set ?pc. 0 \<le> ratio (snd e)" using nonneg by auto
  from res k1 k2 s1 s2 show ?thesis by blast
qed

theorem result_keys_and_signs_witness:
  "is_dict [(''white'', [255, 255, 255]), (''blue'', [0, 93, 186::int])] \<and>
   palette_fits NumPy2 [(''white'', [255, 255, 255]), (''blue'', [0, 93, 186])] \<and>
   concat [[(255, 255, 255)], [(0, 0, 200)], [(250, 250, 250)::pixel]] \<noteq> [] \<and>
   (\<exists>cc pc. analyze_image_colors NumPy2 [[(255, 255, 255)], [(0, 0, 200)], [(250, 250, 250)]]
               [(''white'', [255, 255, 255]), (''blue'', [0, 93, 186])] = Inr (cc, pc) \<and>
      map fst cc = [''white'', ''blue''] \<and>
      map fst pc = [''white_percent'', ''blue_percent''] \<and>
      (\<forall>e\<in>set cc. 0 \<le> snd e) \<and>
      (\<forall>e\<in>set pc. 0 \<le> ratio (snd e)))"
proof -
  let ?tc = "[(''white'', [255, 255, 255]), (''blue'', [0, 93, 186::int])]"
  let ?data = "[[(255, 255, 255)], [(0, 0, 200)], [(250, 250, 250)::pixel]]"
  have a: "is_dict ?tc" by (simp add: is_dict_def)
  have f: "palette_fits NumPy2 ?tc" by simp
  have b: "concat ?data \<noteq> []" by simp
  have "\<exists>cc pc. analyze_image_colors NumPy2 ?data ?tc = Inr (cc, pc) \<and>
      map fst cc = [''white'', ''blue''] \<and>
      map fst pc = [''white_percent'', ''blue_percent''] \<and>
      (\<forall>e\<in>set cc. 0 \<le> snd e) \<and>
      (\<forall>e\<in>set pc. 0 \<le> ratio (snd e))"
    using result_keys_and_signs[OF a f b] by simp
  with a f b show ?thesis by blast
qed

text \<open>
  C6 as stated fails for the percentages: their keys are not the palette's names. On a
  grid of one white pixel and the palette with the one entry \<^verbatim>\<open>white\<close>, the key list of
  the percentages is \<^verbatim>\<open>['white_percent']\<close>, that of the palette \<^verbatim>\<open>['white']\<close>, under either
  NumPy.
\<close>

theorem result_keys_counterexample:
  "analyze_image_colors NumPy1 [[(255, 255, 255)]] [(''white'', [255, 255, 255])]
     = Inr ([(''white'', 1)], [(''white_percent'', Format6 1 1)]) \<and>
   analyze_image_colors NumPy2 [[(255, 255, 255)]] [(''white'', [255, 255, 255])]
     = Inr ([(''white'', 1)], [(''white_percent'', Format6 1 1)]) \<and>
   map fst [(''white_percent'', Format6 1 1)] \<noteq> map fst [(''white'', [255, 255, 255::int])] \<and>
   set (map fst [(''white_percent'', Format6 1 1)])
     \<noteq> set (map fst [(''white'', [255, 255, 255::int])])"
  by (simp add: analyze_image_colors_def analyze_histogram_def np_unique_def tuple_of_def
      dict_of_items_def get_color_name_def sq_dist_def exact_sq_dist_def dict_contains_def
      add_count_def)

text \<open>
  C10. For every palette with an entry, \<^verbatim>\<open>get_color_name\<close> returns a name, never \<^verbatim>\<open>None\<close>,
  and that name is a key of the palette, so the guard \<^verbatim>\<open>color_name in target_colors\<close>
  holds at every iteration; the loop then raises nothing and the counts it leaves add up
  to the sum of all the occurrence counts of the histogram, which is \<^verbatim>\<open>total_pixels\<close>.
  This holds under either NumPy; under NumPy 2 the components of the palette are 8-bit
  values, as the specification has them (otherwise \<^verbatim>\<open>get_color_name\<close> raises
  \<^verbatim>\<open>OverflowError\<close>).
\<close>

theorem guard_always_holds:
  assumes "is_dict tc" and "tc \<noteq> []" and "palette_fits np tc"
  shows "(\<exists>name. get_color_name np c tc = Inr (Some name) \<and> dict_contains tc name) \<and>
         (\<exists>cc. count_loop np tc hist (dict_of_items (map (\<lambda>(color, rgb). (color, 0)) tc), 0)
                  = Inr (cc, sum_list (map snd hist)) \<and>
               sum_list (map snd cc) = sum_list (map snd hist))"
proof
  from get_color_name_total[OF assms(3), of c]
  obtain cl where cl: "get_color_name np c tc = Inr cl" by blast
  from get_color_name_split[OF assms(2) cl]
  obtain name where n: "get_color_name np c tc = Inr (Some name)" using cl by blast
  then have "dict_contains tc name" by (rule get_color_name_contains)
  with n show "\<exists>name. get_color_name np c tc = Inr (Some name) \<and> dict_contains tc name"
    by blast
next
  let ?cc = "map (\<lambda>(k, rgb). (k, assigned np tc hist k)) tc"
  note defined = colours_defined[OF assms(3), of hist]
  have "map snd ?cc = map (\<lambda>(k, rgb). assigned np tc hist k) tc"
    by (induction tc) auto
  then have "sum_list (map snd ?cc) = sum_list (map snd hist)"
    using assigned_total[OF assms(1,2) defined] by (simp only:)
  moreover have "count_loop np tc hist (dict_of_items (map (\<lambda>(color, rgb). (color, 0)) tc), 0)
                  = Inr (?cc, sum_list (map snd hist))"
    using defined by (simp only: analyze_histogram_counts[OF assms(1)] if_P)
  ultimately
  show "\<exists>cc. count_loop np tc hist (dict_of_items (map (\<lambda>(color, rgb). (color, 0)) tc), 0)
                  = Inr (cc, sum_list (map snd hist)) \<and>
               sum_list (map snd cc) = sum_list (map snd hist)" by blast
qed

theorem guard_always_holds_witness:
  "is_dict target_colors \<and> target_colors \<noteq> [] \<and> palette_fits NumPy2 target_colors \<and>
   (\<exists>name. get_color_name NumPy2 [1, 1, 1] target_colors = Inr (Some name) \<and>
      dict_contains target_colors name) \<and>
   (\<exists>cc. count_loop NumPy2 target_colors [([1, 1, 1], 4), ([255, 105, 180], 12)]
            (dict_of_items (map (\<lambda>(color, rgb). (color, 0)) target_colors), 0) = Inr (cc, 16) \<and>
      sum_list (map snd cc) = 16)"
proof -
  have a: "is_dict target_colors" by (simp add: is_dict_def target_colors_def dict_of_items_def)
  have b: "target_colors \<noteq> []" by (simp add: target_colors_def dict_of_items_def)
  have f: "palette_fits NumPy2 target_colors" by (simp add: target_colors_def dict_of_items_def)
  show ?thesis
    using a b f
      guard_always_holds[OF a b f, of "[1, 1, 1]" "[([1, 1, 1], 4), ([255, 105, 180], 12)]"]
    by simp
qed



text \<open>
  C9. A call of \<^verbatim>\<open>analyze_image_colors\<close> stores into no object that existed before it: the
  pixel grid, the palette and every other object of the store are after the call what
  they were before it, whether the call returns or raises. What it returns, or raises, is
  what the function of the grid and the palette alone gives; the two dictionaries it
  returns are new objects. This holds under either NumPy.
\<close>

theorem inputs_not_mutated:
  assumes "deref h data_ref = Some (Grid data)" and "deref h tc_ref = Some (Colors tc)"
  shows "\<exists>r h'. analyze_image_colors_heap np data_ref tc_ref h = (r, h') \<and>
           take (length h) h' = h \<and>
           deref h' data_ref = Some (Grid data) \<and> deref h' tc_ref = Some (Colors tc) \<and>
           (case r of
              Inl e \<Rightarrow> analyze_image_colors np data tc = Inl e
            | Inr (cc_ref, pc_ref) \<Rightarrow>
                length h \<le> cc_ref \<and> length h \<le> pc_ref \<and>
                (\<exists>cc pc. analyze_image_colors np data tc = Inr (cc, pc) \<and>
                   deref h' cc_ref = Some (Counts cc) \<and>
                   deref h' pc_ref = Some (Percentages pc)))"
proof -
  from assms have len: "data_ref < length h" "tc_ref < length h"
    and at: "h ! data_ref = Grid data" "h ! tc_ref = Colors tc"
    by (auto simp: deref_def split: if_splits)
  have keep: "deref (h @ new) data_ref = Some (Grid data) \<and> deref (h @ new) tc_ref = Some (Colors tc)"
    for new
    using len at by (simp add: deref_def nth_append)
  from analyze_image_colors_heap_result[OF assms, of np]
  obtain cc'' where r: "case analyze_image_colors np data tc of
            Inl e \<Rightarrow> analyze_image_colors_heap np data_ref tc_ref h = (Inl e, h @ [Counts cc''])
          | Inr (cc, pc) \<Rightarrow>
              analyze_image_colors_heap np data_ref tc_ref h
                = (Inr (length h, Suc (length h)), h @ [Counts cc, Percentages pc])" by blast
  show ?thesis
  proof (cases "analyze_image_colors np data tc")
    case (Inl e)
    with r have "analyze_image_colors_heap np data_ref tc_ref h = (Inl e, h @ [Counts cc''])"
      by simp
    with Inl keep[of "[Counts cc'']"] show ?thesis by simp
  next
    case (Inr res)
    obtain cc pc where res: "res = (cc, pc)" by (cases res)
    with r Inr have "analyze_image_colors_heap np data_ref tc_ref h
                = (Inr (length h, Suc (length h)), h @ [Counts cc, Percentages pc])" by simp
    moreover have "deref (h @ [Counts cc, Percentages pc]) (length h) = Some (Counts cc)"
      "deref (h @ [Counts cc, Percentages pc]) (Suc (length h)) = Some (Percentages pc)"
      by (simp_all add: deref_def nth_append)
    ultimately show ?thesis using Inr res keep[of "[Counts cc, Percentages pc]"] by simp
  qed
qed

theorem inputs_not_mutated_witness:
  "deref [Colors [(''white'', [255, 255, 255]), (''blue'', [0, 93, 186])],
          Grid [[(255, 255, 255), (0, 0, 200)]]] 1 = Some (Grid [[(255, 255, 255), (0, 0, 200)]]) \<and>
   deref [Colors [(''white'', [255, 255, 255]), (''blue'', [0, 93, 186])],
          Grid [[(255, 255, 255), (0, 0, 200)]]] 0
     = Some (Colors [(''white'', [255, 255, 255]), (''blue'', [0, 93, 186])]) \<and>
   analyze_image_colors_heap NumPy1 1 0
     [Colors [(''white'', [255, 255, 255]), (''blue'', [0, 93, 186])],
      Grid [[(255, 255, 255), (0, 0, 200)]]]
   = (Inr (2, 3),
      [Colors [(''white'', [255, 255, 255]), (''blue'', [0, 93, 186])],
       Grid [[(255, 255, 255), (0, 0, 200)]],
       Counts [(''white'', 1), (''blue'', 1)],
       Percentages [(''white_percent'', Format6 1 2), (''blue_percent'', Format6 1 2)]]) \<and>
   (\<exists>r h'. analyze_image_colors_heap NumPy1 1 0
       [Colors [(''white'', [255, 255, 255]), (''blue'', [0, 93, 186])],
        Grid [[(255, 255, 255), (0, 0, 200)]]] = (r, h') \<and>
      take 2 h' = [Colors [(''white'', [255, 255, 255]), (''blue'', [0, 93, 186])],
                   Grid [[(255, 255, 255), (0, 0, 200)]]]) \<and>
   (\<exists>r h'. analyze_image_colors_heap NumPy2 1 0
       [Colors [(''white'', [255, 255, 255]), (''blue'', [0, 93, 186])],
        Grid [[(255, 255, 255), (0, 0, 200)]]] = (r, h') \<and>
      take 2 h' = [Colors [(''white'', [255, 255, 255]), (''blue'', [0, 93, 186])],
                   Grid [[(255, 255, 255), (0, 0, 200)]]])"
proof -
  let ?tc = "[(''white'', [255, 255, 255]), (''blue'', [0, 93, 186::int])]"
  let ?data = "[[(255, 255, 255), (0, 0, 200)::pixel]]"
  let ?h = "[Colors ?tc, Grid ?data]"
  have a: "deref ?h 1 = Some (Grid ?data)" by (simp add: deref_def)
  have b: "deref ?h 0 = Some (Colors ?tc)" by (simp add: deref_def)
  have c: "analyze_image_colors_heap NumPy1 1 0 ?h
     = (Inr (2, 3), [Colors ?tc, Grid ?data, Counts [(''white'', 1), (''blue'', 1)],
          Percentages [(''white_percent'', Format6 1 2), (''blue_percent'', Format6 1 2)]])"
    by (simp add: analyze_image_colors_heap_def deref_def alloc_def np_unique_def tuple_of_def
        dict_of_items_def get_color_name_def sq_dist_def exact_sq_dist_def dict_contains_def
        add_count_def)
  have d: "\<exists>r h'. analyze_image_colors_heap NumPy1 1 0 ?h = (r, h') \<and> take 2 h' = ?h"
    using inputs_not_mutated[OF a b, of NumPy1] by (auto simp: numeral_2_eq_2)
  have e: "\<exists>r h'. analyze_image_colors_heap NumPy2 1 0 ?h = (r, h') \<and> take 2 h' = ?h"
    using inputs_not_mutated[OF a b, of NumPy2] by (auto simp: numeral_2_eq_2)
  from a b c d e show ?thesis by blast
qed

text \<open>
  C8, as the code has it. Building a palette from an ordered list of pairs raises nothing,
  whatever the names and the components are: the result is a dictionary that maps each
  name of the list to the triple of its last occurrence, and it is the list itself when
  the names are distinct. A call of \<^verbatim>\<open>analyze_image_colors\<close> leaves the palette as it was,
  under either NumPy.
\<close>

theorem palette_construction_total:
  "\<exists>d. make_target_colors pairs = Inr d \<and> is_dict d \<and>
        map_of d = map_of (rev pairs) \<and>
        set (map fst d) = set (map fst pairs) \<and>
        (distinct (map fst pairs) \<longrightarrow> d = pairs) \<and>
        (\<forall>np h data_ref tc_ref data.
            deref h data_ref = Some (Grid data) \<and> deref h tc_ref = Some (Colors d) \<longrightarrow>
            deref (snd (analyze_image_colors_heap np data_ref tc_ref h)) tc_ref = Some (Colors d))"
proof -
  let ?d = "dict_of_items pairs"
  have "dom (map_of ?d) = dom (map_of (rev pairs))" by (simp only: map_of_dict_of_items)
  then have keys: "set (map fst ?d) = set (map fst pairs)"
    by (simp add: dom_map_of_conv_image_fst)
  have frame: "deref (snd (analyze_image_colors_heap np data_ref tc_ref h)) tc_ref = Some (Colors ?d)"
    if "deref h data_ref = Some (Grid data) \<and> deref h tc_ref = Some (Colors ?d)"
    for np h data_ref tc_ref data
  proof -
    from that have a: "deref h data_ref = Some (Grid data)" and b: "deref h tc_ref = Some (Colors ?d)"
      by simp_all
    from b have "tc_ref < length h" "h ! tc_ref = Colors ?d"
      by (auto simp: deref_def split: if_splits)
    then have keep: "deref (h @ new) tc_ref = Some (Colors ?d)" for new
      by (simp add: deref_def nth_append)
    from analyze_image_colors_heap_result[OF a b, of np]
    show ?thesis by (cases "analyze_image_colors np data ?d") (auto simp: keep)
  qed
  have "make_target_colors pairs = Inr ?d" by (simp add: make_target_colors_def)
  moreover have "is_dict ?d" by (rule is_dict_dict_of_items)
  moreover have "map_of ?d = map_of (rev pairs)" by (rule map_of_dict_of_items)
  moreover have "distinct (map fst pairs) \<longrightarrow> ?d = pairs" by (simp add: dict_of_items_distinct)
  ultimately show ?thesis using keys frame by blast
qed

theorem palette_construction_total_witness:
  "distinct (map fst [(''white'', [255, 255, 255]), (''blue'', [0, 93, 186::int])]) \<and>
   make_target_colors [(''white'', [255, 255, 255]), (''blue'', [0, 93, 186])]
     = Inr [(''white'', [255, 255, 255]), (''blue'', [0, 93, 186])] \<and>
   deref [Grid [[(0, 0, 200)]], Colors [(''white'', [255, 255, 255]), (''blue'', [0, 93, 186])]] 0
     = Some (Grid [[(0, 0, 200)]]) \<and>
   deref [Grid [[(0, 0, 200)]], Colors [(''white'', [255, 255, 255]), (''blue'', [0, 93, 186])]] 1
     = Some (Colors [(''white'', [255, 255, 255]), (''blue'', [0, 93, 186])]) \<and>
   deref (snd (analyze_image_colors_heap NumPy2 0 1
            [Grid [[(0, 0, 200)]], Colors [(''white'', [255, 255, 255]), (''blue'', [0, 93, 186])]])) 1
     = Some (Colors [(''white'', [255, 255, 255]), (''blue'', [0, 93, 186])])"
proof -
  let ?pairs = "[(''white'', [255, 255, 255]), (''blue'', [0, 93, 186::int])]"
  let ?h = "[Grid [[(0, 0, 200)]], Colors ?pairs]"
  have a: "distinct (map fst ?pairs)" by simp
  have b: "deref ?h 0 = Some (Grid [[(0, 0, 200)]])" by (simp add: deref_def)
  have c: "deref ?h 1 = Some (Colors ?pairs)" by (simp add: deref_def)
  from palette_construction_total[of ?pairs]
  obtain d where d: "make_target_colors ?pairs = Inr d" "distinct (map fst ?pairs) \<longrightarrow> d = ?pairs"
    and fr: "\<forall>np h data_ref tc_ref data.
            deref h data_ref = Some (Grid data) \<and> deref h tc_ref = Some (Colors d) \<longrightarrow>
            deref (snd (analyze_image_colors_heap np data_ref tc_ref h)) tc_ref = Some (Colors d)"
    by blast
  from d a have eq: "d = ?pairs" by blast
  with d have e: "make_target_colors ?pairs = Inr ?pairs" by simp
  from fr eq b c have f: "deref (snd (analyze_image_colors_heap NumPy2 0 1 ?h)) 1 = Some (Colors ?pairs)"
    by blast
  from a e b c f show ?thesis by blast
qed

text \<open>
  C8 as stated fails: a list in which a name occurs twice and the components are outside
  0 to 255 builds a palette, and no \<open>InvalidPalette\<close> error is raised.
\<close>

theorem palette_construction_counterexample:
  "make_target_colors [(''a'', [0, 0, 0]), (''a'', [300, - 1, 0])] = Inr [(''a'', [300, - 1, 0])] \<and>
   make_target_colors [(''a'', [0, 0, 0]), (''a'', [300, - 1, 0])] \<noteq> Inl InvalidPalette"
  by (simp add: make_target_colors_def dict_of_items_def)

end
